theory Spec2Isabelle
  imports Complex_Main
begin

section \<open>JavaScript numbers at the interface\<close>

text \<open>
  The width and height handed to the allocator are JavaScript numbers. The source documents
  them as integers; the model carries every integer and, besides, the one non-integer value
  the size check of the manager lets through, \<open>NaN\<close>. A comparison with \<open>NaN\<close> is false,
  arithmetic with \<open>NaN\<close> gives \<open>NaN\<close>.
\<close>

datatype jsnum = Num int | NaN

fun js_gt :: "jsnum \<Rightarrow> jsnum \<Rightarrow> bool" where
  "js_gt (Num a) (Num b) = (a > b)"
| "js_gt _ _ = False"

fun js_eq :: "jsnum \<Rightarrow> jsnum \<Rightarrow> bool" where
  "js_eq (Num a) (Num b) = (a = b)"
| "js_eq _ _ = False"

fun js_add :: "jsnum \<Rightarrow> jsnum \<Rightarrow> jsnum" where
  "js_add (Num a) (Num b) = Num (a + b)"
| "js_add _ _ = NaN"

fun js_sub :: "jsnum \<Rightarrow> jsnum \<Rightarrow> jsnum" where
  "js_sub (Num a) (Num b) = Num (a - b)"
| "js_sub _ _ = NaN"

section \<open>KnapsackRectangle\<close>

text \<open>
  The constructor stores \<open>Math.floor(isFinite(x) ? x : 0)\<close> for each of its four arguments,
  so the fields of a rectangle are integers whatever was passed.
\<close>

record KnapsackRectangle =
  rleft :: int
  rtop :: int
  rright :: int
  rbottom :: int

fun floor_or_zero :: "jsnum \<Rightarrow> int" where
  "floor_or_zero (Num a) = a"
| "floor_or_zero NaN = 0"

definition new_KnapsackRectangle :: "jsnum \<Rightarrow> jsnum \<Rightarrow> jsnum \<Rightarrow> jsnum \<Rightarrow> KnapsackRectangle" where
  "new_KnapsackRectangle l t r b =
     \<lparr>rleft = floor_or_zero l, rtop = floor_or_zero t,
      rright = floor_or_zero r, rbottom = floor_or_zero b\<rparr>"

definition Rect_width :: "KnapsackRectangle \<Rightarrow> int" where
  "Rect_width r = rright r - rleft r"

definition Rect_height :: "KnapsackRectangle \<Rightarrow> int" where
  "Rect_height r = rbottom r - rtop r"

section \<open>KnapsackNode\<close>

text \<open>
  The texture handle a node builds lazily: only its UV offset and repeat are modelled.
  JavaScript divides in double precision; for integer pixel coordinates between 0 and the
  surface size, and a surface size that is a power of two up to 16384, those quotients and
  differences are exact, so rationals give the same values.
\<close>

record Texture =
  offset_x :: rat
  offset_y :: rat
  repeat_x :: rat
  repeat_y :: rat

text \<open>
  A node object has a rectangle, an \<open>imageID\<close> (null or an identifier), a cached
  \<open>_texture\<close> (null or a handle) and two child references that are null together or set
  together (\<open>allocate\<close> assigns both in one step and nothing else assigns them). A node
  with children is a \<open>Branch\<close>, one without is a \<open>Leaf\<close>. Identifiers made by
  \<open>THREE.Math.generateUUID()\<close> are modelled as the successive values of a counter.
\<close>

datatype KnapsackNode =
    Leaf KnapsackRectangle "nat option" "Texture option"
  | Branch KnapsackRectangle "nat option" "Texture option" KnapsackNode KnapsackNode

fun rectangle :: "KnapsackNode \<Rightarrow> KnapsackRectangle" where
  "rectangle (Leaf r i t) = r"
| "rectangle (Branch r i t lc rc) = r"

fun imageID :: "KnapsackNode \<Rightarrow> nat option" where
  "imageID (Leaf r i t) = i"
| "imageID (Branch r i t lc rc) = i"

fun texture_cache :: "KnapsackNode \<Rightarrow> Texture option" where
  "texture_cache (Leaf r i t) = t"
| "texture_cache (Branch r i t lc rc) = t"

fun hasChildren :: "KnapsackNode \<Rightarrow> bool" where
  "hasChildren (Leaf r i t) = False"
| "hasChildren (Branch r i t lc rc) = True"

definition isOccupied :: "KnapsackNode \<Rightarrow> bool" where
  "isOccupied n = (imageID n \<noteq> None)"

definition Node_width :: "KnapsackNode \<Rightarrow> int" where
  "Node_width n = Rect_width (rectangle n)"

definition Node_height :: "KnapsackNode \<Rightarrow> int" where
  "Node_height n = Rect_height (rectangle n)"

text \<open>
  A reference to a node inside a tree is the way to it from the root. The source never
  reassigns the children of a node that has them, so this way names the same object for as
  long as the tree lives.
\<close>

datatype child = LeftChild | RightChild

type_synonym path = "child list"

fun node_at :: "path \<Rightarrow> KnapsackNode \<Rightarrow> KnapsackNode option" where
  "node_at [] n = Some n"
| "node_at (c # p) (Leaf r i t) = None"
| "node_at (LeftChild # p) (Branch r i t lc rc) = node_at p lc"
| "node_at (RightChild # p) (Branch r i t lc rc) = node_at p rc"

fun update_at :: "path \<Rightarrow> (KnapsackNode \<Rightarrow> KnapsackNode) \<Rightarrow> KnapsackNode \<Rightarrow> KnapsackNode" where
  "update_at [] f n = f n"
| "update_at (c # p) f (Leaf r i t) = Leaf r i t"
| "update_at (LeftChild # p) f (Branch r i t lc rc) = Branch r i t (update_at p f lc) rc"
| "update_at (RightChild # p) f (Branch r i t lc rc) = Branch r i t lc (update_at p f rc)"

text \<open>
  \<open>claim()\<close> is \<open>this.imageID = THREE.Math.generateUUID()\<close>. The generator is
  outside the repository; all that is used of it is that every call gives a new identifier.
\<close>

fun set_imageID :: "nat option \<Rightarrow> KnapsackNode \<Rightarrow> KnapsackNode" where
  "set_imageID v (Leaf r i t) = Leaf r v t"
| "set_imageID v (Branch r i t lc rc) = Branch r v t lc rc"

definition generateUUID :: "nat \<Rightarrow> nat \<times> nat" where
  "generateUUID g = (g, Suc g)"

definition claim :: "KnapsackNode \<Rightarrow> nat \<Rightarrow> KnapsackNode \<times> nat" where
  "claim this g = (set_imageID (Some (fst (generateUUID g))) this, snd (generateUUID g))"

text \<open>\<open>newNode.claim()\<close> on the node that the reference \<open>p\<close> names inside a tree.\<close>

definition claim_at :: "path \<Rightarrow> KnapsackNode \<Rightarrow> nat \<Rightarrow> KnapsackNode \<times> nat" where
  "claim_at p tree g = (update_at p (\<lambda>n. fst (claim n g)) tree, snd (generateUUID g))"

text \<open>
  The two rectangles of a split (\<open>remainingWidth\<close>, \<open>remainingHeight\<close> and the four
  \<open>new KnapsackRectangle\<close> of \<open>allocate\<close>), for the rectangle of the node that is split.
\<close>

definition split_rects ::
  "jsnum \<Rightarrow> jsnum \<Rightarrow> KnapsackRectangle \<Rightarrow> KnapsackRectangle \<times> KnapsackRectangle" where
  "split_rects width height rect =
     (let remainingWidth = js_sub (Num (Rect_width rect)) width;
          remainingHeight = js_sub (Num (Rect_height rect)) height
      in if js_gt remainingWidth remainingHeight
         then (new_KnapsackRectangle (Num (rleft rect)) (Num (rtop rect))
                 (js_add (Num (rleft rect)) width) (Num (rbottom rect)),
               new_KnapsackRectangle (js_add (Num (rleft rect)) width) (Num (rtop rect))
                 (Num (rright rect)) (Num (rbottom rect)))
         else (new_KnapsackRectangle (Num (rleft rect)) (Num (rtop rect))
                 (Num (rright rect)) (js_add (Num (rtop rect)) height),
               new_KnapsackRectangle (Num (rleft rect)) (js_add (Num (rtop rect)) height)
                 (Num (rright rect)) (Num (rbottom rect))))"

text \<open>
  \<open>allocate(width, height)\<close>. The result is the reference to the node returned (None for
  null), the tree after the call and the state of the identifier generator. The two children
  of a split are \<open>new KnapsackNode\<close> objects whose rectangle is overwritten at once, so they
  are written as free leaves with that rectangle. The outlines painted when the debug flag
  is set do not change any node and are left out. The function is partial: on \<open>NaN\<close> the
  source splits without end, and the outer \<open>None\<close> is that run.
\<close>

partial_function (option) allocate ::
  "jsnum \<Rightarrow> jsnum \<Rightarrow> KnapsackNode \<Rightarrow> nat \<Rightarrow> (path option \<times> KnapsackNode \<times> nat) option"
where
  "allocate width height this uuid =
    (case this of
       Branch rect iid tex leftChild rightChild \<Rightarrow>
         Option.bind (allocate width height leftChild uuid) (\<lambda>(newNode, leftChild', uuid').
           case newNode of
             Some p \<Rightarrow>
               Some (Some (LeftChild # p),
                     Branch rect iid tex (fst (claim_at p leftChild' uuid')) rightChild,
                     snd (claim_at p leftChild' uuid'))
           | None \<Rightarrow>
               Option.bind (allocate width height rightChild uuid') (\<lambda>(res, rightChild', uuid'').
                 Some (map_option ((#) RightChild) res,
                       Branch rect iid tex leftChild' rightChild', uuid'')))
     | Leaf rect iid tex \<Rightarrow>
         if iid \<noteq> None then Some (None, this, uuid)
         else if js_gt width (Num (Rect_width rect)) \<or> js_gt height (Num (Rect_height rect))
           then Some (None, this, uuid)
         else if js_eq width (Num (Rect_width rect)) \<and> js_eq height (Num (Rect_height rect))
           then Some (Some [], fst (claim this uuid), snd (claim this uuid))
         else
           Option.bind
             (allocate width height (Leaf (fst (split_rects width height rect)) None None) uuid)
             (\<lambda>(res, leftChild', uuid').
                Some (map_option ((#) LeftChild) res,
                      Branch rect iid tex leftChild'
                        (Leaf (snd (split_rects width height rect)) None None), uuid')))"

declare allocate.simps [code]

text \<open>
  \<open>uvCoordinates()\<close>, for a node of a knapsack whose \<open>textureSize\<close> is \<open>tsize\<close>. The
  size of a knapsack is never zero (see \<open>new_TextureManager\<close>); HOL's \<open>x / 0 = 0\<close> is not
  what JavaScript computes, so the properties of this function are stated for the sizes a
  manager can have.
\<close>

definition uvCoordinates :: "int \<Rightarrow> KnapsackNode \<Rightarrow> rat list" where
  "uvCoordinates tsize this =
     [of_int (rleft (rectangle this)) / of_int tsize,
      1 - of_int (rbottom (rectangle this)) / of_int tsize,
      of_int (rright (rectangle this)) / of_int tsize,
      1 - of_int (rtop (rectangle this)) / of_int tsize]"

text \<open>
  The getter \<open>texture\<close>: builds the handle on first use from the UV coordinates and caches it
  in \<open>_texture\<close>; returns the handle and the node after the call.
\<close>

fun set_texture :: "Texture option \<Rightarrow> KnapsackNode \<Rightarrow> KnapsackNode" where
  "set_texture v (Leaf r i t) = Leaf r i v"
| "set_texture v (Branch r i t lc rc) = Branch r i v lc rc"

definition get_texture :: "int \<Rightarrow> KnapsackNode \<Rightarrow> Texture \<times> KnapsackNode" where
  "get_texture tsize this =
     (case texture_cache this of
        Some t \<Rightarrow> (t, this)
      | None \<Rightarrow>
          let uvs = uvCoordinates tsize this;
              t = \<lparr>offset_x = uvs ! 0, offset_y = uvs ! 1,
                   repeat_x = uvs ! 2 - uvs ! 0, repeat_y = uvs ! 3 - uvs ! 1\<rparr>
          in (t, set_texture (Some t) this))"

text \<open>
  Every error of the source is a plain \<open>Error\<close> with a message; the constructors name the
  four messages. The first two are the size errors of \<open>_validateSize\<close>.
\<close>

datatype error =
    WidthTooLarge jsnum
  | HeightTooLarge jsnum
  | QueueNotSetUp
  | StillHasChildren

fun is_SizeError :: "error \<Rightarrow> bool" where
  "is_SizeError (WidthTooLarge w) = True"
| "is_SizeError (HeightTooLarge h) = True"
| "is_SizeError _ = False"

text \<open>
  \<open>release()\<close> on a node: the node after the call and the handles on which \<open>dispose()\<close> was
  called, or the error thrown. \<open>clear()\<close> erases pixels of the canvas and touches no node.
\<close>

definition release :: "KnapsackNode \<Rightarrow> error + (KnapsackNode \<times> Texture list)" where
  "release this =
     (if hasChildren this then Inl StillHasChildren
      else Inr (set_imageID None (set_texture None this),
                (case texture_cache this of None \<Rightarrow> [] | Some t \<Rightarrow> [t])))"

section \<open>Knapsack\<close>

record Knapsack =
  textureSize :: int
  rootNode :: KnapsackNode

text \<open>A new node covers the whole surface of its knapsack.\<close>

definition new_KnapsackNode :: "int \<Rightarrow> KnapsackNode" where
  "new_KnapsackNode tsize =
     Leaf (new_KnapsackRectangle (Num 0) (Num 0) (Num tsize) (Num tsize)) None None"

definition new_Knapsack :: "int \<Rightarrow> Knapsack" where
  "new_Knapsack tsize = \<lparr>textureSize = tsize, rootNode = new_KnapsackNode tsize\<rparr>"

definition Knapsack_allocateNode ::
  "jsnum \<Rightarrow> jsnum \<Rightarrow> Knapsack \<Rightarrow> nat \<Rightarrow> (path option \<times> Knapsack \<times> nat) option" where
  "Knapsack_allocateNode width height k g =
     (case allocate width height (rootNode k) g of
        None \<Rightarrow> None
      | Some (res, root', g') \<Rightarrow> Some (res, k\<lparr>rootNode := root'\<rparr>, g'))"

section \<open>TextureManager\<close>

text \<open>
  A promise is pending, resolved with a value or rejected with an error. The manager's state
  holds every promise it has made, by number, and the order in which they were settled. A
  node handed to a client is named by the number of its knapsack and its place in the tree.
\<close>

datatype 'a promise = Pending | Resolved 'a | Rejected error

type_synonym noderef = "nat \<times> path"

record queueEntry =
  width :: jsnum
  height :: jsnum
  promise :: nat

record TextureManager =
  tm_size :: int
  knapsacks :: "Knapsack list"
  queue :: "queueEntry list option"
  uuid_gen :: nat
  promises :: "noderef option promise list"
  settled :: "nat list"

definition valid_sizes :: "int list" where
  "valid_sizes = [128, 256, 512, 1024, 2048, 4096, 8192, 16384]"

text \<open>
  The constructor: a size that is not one of the eight listed (\<open>NaN\<close> stands for every
  argument that is not a number, too) gives 1024. \<open>_queue\<close> is not set by the constructor.
\<close>

definition new_TextureManager :: "jsnum \<Rightarrow> TextureManager" where
  "new_TextureManager s =
     \<lparr>tm_size = (case s of Num n \<Rightarrow> if n \<in> set valid_sizes then n else 1024 | NaN \<Rightarrow> 1024),
      knapsacks = [], queue = None, uuid_gen = 0, promises = [], settled = []\<rparr>"

definition TM__addKnapsack :: "TextureManager \<Rightarrow> int \<Rightarrow> TextureManager" where
  "TM__addKnapsack m tsize = m\<lparr>knapsacks := knapsacks m @ [new_Knapsack tsize]\<rparr>"

definition TM__validateSize :: "TextureManager \<Rightarrow> jsnum \<Rightarrow> jsnum \<Rightarrow> error + unit" where
  "TM__validateSize m w h =
     (if js_gt w (Num (tm_size m)) then Inl (WidthTooLarge w)
      else if js_gt h (Num (tm_size m)) then Inl (HeightTooLarge h)
      else Inr ())"

text \<open>
  The \<open>forEach\<close> of \<open>_allocate\<close> over the knapsacks: \<open>i\<close> is the number of the knapsack at
  the head of the list, \<open>node\<close> the variable of the same name.
\<close>

fun forEach_knapsack ::
  "jsnum \<Rightarrow> jsnum \<Rightarrow> nat \<Rightarrow> Knapsack list \<Rightarrow> noderef option \<Rightarrow> nat
     \<Rightarrow> (noderef option \<times> Knapsack list \<times> nat) option" where
  "forEach_knapsack w h i [] node g = Some (node, [], g)"
| "forEach_knapsack w h i (k # ks) node g =
     (if node = None then
        (case Knapsack_allocateNode w h k g of
           None \<Rightarrow> None
         | Some (res, k', g') \<Rightarrow>
             (case forEach_knapsack w h (Suc i) ks (map_option (Pair i) res) g' of
                None \<Rightarrow> None
              | Some (node', ks', g'') \<Rightarrow> Some (node', k' # ks', g'')))
      else
        (case forEach_knapsack w h (Suc i) ks node g of
           None \<Rightarrow> None
         | Some (node', ks', g'') \<Rightarrow> Some (node', k # ks', g'')))"

definition TM__allocate ::
  "TextureManager \<Rightarrow> jsnum \<Rightarrow> jsnum \<Rightarrow> (noderef option \<times> TextureManager) option" where
  "TM__allocate m w h =
     (case forEach_knapsack w h 0 (knapsacks m) None (uuid_gen m) of
        None \<Rightarrow> None
      | Some (node, ks, g) \<Rightarrow>
          let m1 = m\<lparr>knapsacks := ks, uuid_gen := g\<rparr> in
          if node = None then
            (let m2 = TM__addKnapsack m1 (tm_size m1) in
             case Knapsack_allocateNode w h (last (knapsacks m2)) (uuid_gen m2) of
               None \<Rightarrow> None
             | Some (res, k', g') \<Rightarrow>
                 Some (map_option (Pair (length (knapsacks m2) - 1)) res,
                       m2\<lparr>knapsacks := butlast (knapsacks m2) @ [k'], uuid_gen := g'\<rparr>))
          else Some (node, m1))"

text \<open>\<open>allocate(width, height)\<close> of the manager: the error thrown, or the node and the manager.\<close>

definition TM_allocate ::
  "TextureManager \<Rightarrow> jsnum \<Rightarrow> jsnum \<Rightarrow> (error + noderef option \<times> TextureManager) option" where
  "TM_allocate m w h =
     (case TM__validateSize m w h of
        Inl e \<Rightarrow> Some (Inl e)
      | Inr u \<Rightarrow> map_option Inr (TM__allocate m w h))"

text \<open>
  Making a promise and settling one. \<open>settle\<close> is \<open>resolve(v)\<close> or \<open>reject(e)\<close>: it acts on a
  pending promise only.
\<close>

definition new_promise ::
  "noderef option promise \<Rightarrow> TextureManager \<Rightarrow> nat \<times> TextureManager" where
  "new_promise st m =
     (length (promises m),
      m\<lparr>promises := promises m @ [st],
        settled := (if st = Pending then settled m else settled m @ [length (promises m)])\<rparr>)"

definition settle :: "nat \<Rightarrow> noderef option promise \<Rightarrow> TextureManager \<Rightarrow> TextureManager" where
  "settle p st m =
     (if p < length (promises m) \<and> promises m ! p = Pending
      then m\<lparr>promises := (promises m)[p := st], settled := settled m @ [p]\<rparr>
      else m)"

text \<open>
  \<open>allocateNode\<close>: the executor of the promise runs at once; the result is the number of
  the promise returned and the manager. A run of \<open>_allocate\<close> that does not return is
  \<open>None\<close> here too: what an engine does when its stack is full is not modelled.
\<close>

definition TM_allocateNode ::
  "TextureManager \<Rightarrow> jsnum \<Rightarrow> jsnum \<Rightarrow> (nat \<times> TextureManager) option" where
  "TM_allocateNode m w h =
     (case TM__validateSize m w h of
        Inl e \<Rightarrow> Some (new_promise (Rejected e) m)
      | Inr u \<Rightarrow>
          (case TM__allocate m w h of
             None \<Rightarrow> None
           | Some (node, m') \<Rightarrow> Some (new_promise (Resolved node) m')))"

text \<open>
  \<open>allocateASync\<close>: \<open>_queue\<close> becomes an array if it is none yet; then, in the executor
  of the promise, the sizes are checked and the request is made, or the promise rejected;
  the request, if made, is pushed with its promise.
\<close>

definition TM_allocateASync :: "TextureManager \<Rightarrow> jsnum \<Rightarrow> jsnum \<Rightarrow> nat \<times> TextureManager" where
  "TM_allocateASync m w h =
     (let q = (case queue m of None \<Rightarrow> [] | Some q \<Rightarrow> q);
          m1 = m\<lparr>queue := Some q\<rparr>
      in case TM__validateSize m1 w h of
           Inl e \<Rightarrow> new_promise (Rejected e) m1
         | Inr u \<Rightarrow>
             let (p, m2) = new_promise Pending m1 in
             (p, m2\<lparr>queue := Some (q @ [\<lparr>width = w, height = h, promise = p\<rparr>])\<rparr>))"

text \<open>
  The \<open>forEach\<close> of \<open>solveASync\<close> over the queue; \<open>ps\<close> is the array \<open>promises\<close> it fills.
\<close>

fun forEach_entry ::
  "queueEntry list \<Rightarrow> TextureManager \<Rightarrow> nat list \<Rightarrow> (TextureManager \<times> nat list) option" where
  "forEach_entry [] m ps = Some (m, ps)"
| "forEach_entry (entry # es) m ps =
     (case TM__allocate m (width entry) (height entry) of
        None \<Rightarrow> None
      | Some (node, m') \<Rightarrow>
          forEach_entry es (settle (promise entry) (Resolved node) m') (ps @ [promise entry]))"

text \<open>
  \<open>solveASync()\<close>: the error thrown, or the promises given to \<open>Promise.all\<close> and the manager.
\<close>

definition TM_solveASync ::
  "TextureManager \<Rightarrow> (error + nat list \<times> TextureManager) option" where
  "TM_solveASync m =
     (case queue m of
        None \<Rightarrow> Some (Inl QueueNotSetUp)
      | Some q \<Rightarrow>
          (case forEach_entry q m [] of
             None \<Rightarrow> None
           | Some (m', ps) \<Rightarrow> Some (Inr (ps, m'\<lparr>queue := Some []\<rparr>))))"

text \<open>
  \<open>release(node)\<close> of the manager. A falsy argument is \<open>None\<close>. A reference that names no
  node of this manager (a node of another manager) leaves this manager as it is.
\<close>

definition lookup_node :: "TextureManager \<Rightarrow> noderef \<Rightarrow> KnapsackNode option" where
  "lookup_node m ref =
     (if fst ref < length (knapsacks m)
      then node_at (snd ref) (rootNode (knapsacks m ! fst ref)) else None)"

definition store_node :: "TextureManager \<Rightarrow> noderef \<Rightarrow> KnapsackNode \<Rightarrow> TextureManager" where
  "store_node m ref n =
     m\<lparr>knapsacks := (knapsacks m)[fst ref :=
          (knapsacks m ! fst ref)\<lparr>rootNode :=
             update_at (snd ref) (\<lambda>x. n) (rootNode (knapsacks m ! fst ref))\<rparr>]\<rparr>"

definition Node_release ::
  "TextureManager \<Rightarrow> noderef \<Rightarrow> error + (TextureManager \<times> Texture list)" where
  "Node_release m ref =
     (case lookup_node m ref of
        None \<Rightarrow> Inr (m, [])
      | Some n \<Rightarrow>
          (case release n of
             Inl e \<Rightarrow> Inl e
           | Inr (n', disposed) \<Rightarrow> Inr (store_node m ref n', disposed)))"

definition TM_release ::
  "TextureManager \<Rightarrow> noderef option \<Rightarrow> error + (TextureManager \<times> Texture list)" where
  "TM_release m node =
     (case node of
        None \<Rightarrow> Inr (m, [])
      | Some ref \<Rightarrow> Node_release m ref)"

section \<open>Calls of a client, one after the other\<close>

text \<open>
  The calls a client can make on a manager and on the nodes it was given. A call that throws
  leaves the manager as it was (every \<open>throw\<close> of the source comes before the first
  assignment of its method); a call that does not return ends the run.
\<close>

datatype op =
    Allocate jsnum jsnum
  | AllocateNode jsnum jsnum
  | AllocateASync jsnum jsnum
  | SolveASync
  | Release "noderef option"
  | GetTexture noderef

fun exec :: "op \<Rightarrow> TextureManager \<Rightarrow> TextureManager option" where
  "exec (Allocate w h) m =
     (case TM_allocate m w h of
        None \<Rightarrow> None
      | Some (Inl e) \<Rightarrow> Some m
      | Some (Inr (node, m')) \<Rightarrow> Some m')"
| "exec (AllocateNode w h) m = map_option snd (TM_allocateNode m w h)"
| "exec (AllocateASync w h) m = Some (snd (TM_allocateASync m w h))"
| "exec SolveASync m =
     (case TM_solveASync m of
        None \<Rightarrow> None
      | Some (Inl e) \<Rightarrow> Some m
      | Some (Inr (ps, m')) \<Rightarrow> Some m')"
| "exec (Release node) m =
     (case TM_release m node of
        Inl e \<Rightarrow> Some m
      | Inr (m', disposed) \<Rightarrow> Some m')"
| "exec (GetTexture ref) m =
     (case lookup_node m ref of
        None \<Rightarrow> Some m
      | Some n \<Rightarrow>
          Some (store_node m ref (snd (get_texture (textureSize (knapsacks m ! fst ref)) n))))"

fun run :: "op list \<Rightarrow> TextureManager \<Rightarrow> TextureManager option" where
  "run [] m = Some m"
| "run (c # cs) m = (case exec c m of None \<Rightarrow> None | Some m' \<Rightarrow> run cs m')"

section \<open>The properties\<close>

text \<open>The pixels a rectangle covers: \<open>left\<close> and \<open>top\<close> are inside, \<open>right\<close> and \<open>bottom\<close> are not.\<close>

definition pixels :: "KnapsackRectangle \<Rightarrow> (int \<times> int) set" where
  "pixels r = {(x, y). rleft r \<le> x \<and> x < rright r \<and> rtop r \<le> y \<and> y < rbottom r}"

text \<open>
  Every node with children in a tree has no identifier, and the rectangles of its two
  children cover its own rectangle without a gap and without an overlap.
\<close>

fun branches_ok :: "KnapsackNode \<Rightarrow> bool" where
  "branches_ok (Leaf r i t) = True"
| "branches_ok (Branch r i t lc rc) =
     (i = None \<and>
      pixels (rectangle lc) \<union> pixels (rectangle rc) = pixels r \<and>
      pixels (rectangle lc) \<inter> pixels (rectangle rc) = {} \<and>
      branches_ok lc \<and> branches_ok rc)"

text \<open>
  The second tree has every node of the first, at the same place and with the same
  rectangle; a node with children in the first has children in the second.
\<close>

fun extends :: "KnapsackNode \<Rightarrow> KnapsackNode \<Rightarrow> bool" where
  "extends (Leaf r i t) n' = (rectangle n' = r)"
| "extends (Branch r i t lc rc) (Leaf r' i' t') = False"
| "extends (Branch r i t lc rc) (Branch r' i' t' lc' rc') =
     (r' = r \<and> extends lc lc' \<and> extends rc rc')"

text \<open>
  One knapsack before and after some calls: the tree after extends the tree before, and if
  the nodes with children were in order before they are in order after.
\<close>

definition knapsack_step :: "Knapsack \<Rightarrow> Knapsack \<Rightarrow> bool" where
  "knapsack_step k k' =
     (extends (rootNode k) (rootNode k')
      \<and> (branches_ok (rootNode k) \<longrightarrow> branches_ok (rootNode k')))"

text \<open>
  A manager before and after some calls: every knapsack it had is still there, at the same
  number, one step on; the knapsacks added since are in order.
\<close>

definition manager_step :: "TextureManager \<Rightarrow> TextureManager \<Rightarrow> bool" where
  "manager_step m m' =
     (length (knapsacks m) \<le> length (knapsacks m')
      \<and> (\<forall>i < length (knapsacks m). knapsack_step (knapsacks m ! i) (knapsacks m' ! i))
      \<and> (\<forall>i. length (knapsacks m) \<le> i \<and> i < length (knapsacks m') \<longrightarrow>
             branches_ok (rootNode (knapsacks m' ! i))))"

definition manager_ok :: "TextureManager \<Rightarrow> bool" where
  "manager_ok m = (\<forall>i < length (knapsacks m). branches_ok (rootNode (knapsacks m ! i)))"

text \<open>A call whose sizes, if it has any, are positive integers.\<close>

fun positive :: "jsnum \<Rightarrow> bool" where
  "positive (Num a) = (0 < a)"
| "positive NaN = False"

fun positive_sizes :: "op \<Rightarrow> bool" where
  "positive_sizes (Allocate w h) = (positive w \<and> positive h)"
| "positive_sizes (AllocateNode w h) = (positive w \<and> positive h)"
| "positive_sizes (AllocateASync w h) = (positive w \<and> positive h)"
| "positive_sizes _ = True"

text \<open>A number that is an integer.\<close>

fun is_int :: "jsnum \<Rightarrow> bool" where
  "is_int (Num a) = True"
| "is_int NaN = False"

text \<open>
  The number of nodes on the way \<open>p\<close> through the tree \<open>n\<close> that have children in \<open>n\<close> and
  are left through their left child.
\<close>

fun left_turns :: "KnapsackNode \<Rightarrow> path \<Rightarrow> nat" where
  "left_turns (Branch r i t lc rc) (LeftChild # p) = Suc (left_turns lc p)"
| "left_turns (Branch r i t lc rc) (RightChild # p) = left_turns rc p"
| "left_turns n p = 0"

text \<open>The calls of \<open>allocateASync\<close> in a run, and those among them whose request was queued.\<close>

fun is_allocateASync :: "op \<Rightarrow> bool" where
  "is_allocateASync (AllocateASync w h) = True"
| "is_allocateASync _ = False"

fun queues_request :: "int \<Rightarrow> op \<Rightarrow> bool" where
  "queues_request tsize (AllocateASync w h) = (\<not> js_gt w (Num tsize) \<and> \<not> js_gt h (Num tsize))"
| "queues_request tsize _ = False"

text \<open>
  The queue as \<open>allocateASync\<close> builds it: the promises of its entries are pending, different
  from each other, and promises of this manager.
\<close>

definition queue_pending :: "TextureManager \<Rightarrow> bool" where
  "queue_pending m =
     (case queue m of
        None \<Rightarrow> True
      | Some q \<Rightarrow>
          distinct (map promise q) \<and>
          (\<forall>e \<in> set q. promise e < length (promises m) \<and> promises m ! promise e = Pending))"

text \<open>The sizes of every queued request are positive integers.\<close>

definition queue_positive :: "TextureManager \<Rightarrow> bool" where
  "queue_positive m =
     (case queue m of
        None \<Rightarrow> True
      | Some q \<Rightarrow> \<forall>e \<in> set q. positive (width e) \<and> positive (height e))"

text \<open>How far the width and height asked for are from those of a rectangle (0, 1 or 2).\<close>

definition mismatch :: "int \<Rightarrow> int \<Rightarrow> KnapsackRectangle \<Rightarrow> nat" where
  "mismatch w h r =
     (if w = Rect_width r then 0 else 1) + (if h = Rect_height r then 0 else 1)"

text \<open>
  Two trees for the examples: a surface of 1024 after \<open>allocate(10, 10)\<close>, and after a
  second \<open>allocate(10, 10)\<close>.
\<close>

definition tree_one_sprite :: KnapsackNode where
  "tree_one_sprite =
     Branch \<lparr>rleft = 0, rtop = 0, rright = 1024, rbottom = 1024\<rparr> None None
       (Branch \<lparr>rleft = 0, rtop = 0, rright = 1024, rbottom = 10\<rparr> None None
          (Leaf \<lparr>rleft = 0, rtop = 0, rright = 10, rbottom = 10\<rparr> (Some 0) None)
          (Leaf \<lparr>rleft = 10, rtop = 0, rright = 1024, rbottom = 10\<rparr> None None))
       (Leaf \<lparr>rleft = 0, rtop = 10, rright = 1024, rbottom = 1024\<rparr> None None)"

definition tree_two_sprites :: KnapsackNode where
  "tree_two_sprites =
     Branch \<lparr>rleft = 0, rtop = 0, rright = 1024, rbottom = 1024\<rparr> None None
       (Branch \<lparr>rleft = 0, rtop = 0, rright = 1024, rbottom = 10\<rparr> None None
          (Leaf \<lparr>rleft = 0, rtop = 0, rright = 10, rbottom = 10\<rparr> (Some 0) None)
          (Branch \<lparr>rleft = 10, rtop = 0, rright = 1024, rbottom = 10\<rparr> None None
             (Leaf \<lparr>rleft = 10, rtop = 0, rright = 20, rbottom = 10\<rparr> (Some 2) None)
             (Leaf \<lparr>rleft = 20, rtop = 0, rright = 1024, rbottom = 10\<rparr> None None)))
       (Leaf \<lparr>rleft = 0, rtop = 10, rright = 1024, rbottom = 1024\<rparr> None None)"

text \<open>
  Two managers for the examples: a manager of size 1024 after three calls of
  \<open>allocateASync\<close> (50 by 50, 10 by 10, 100 by 100), and one after \<open>allocate(10, 10)\<close>.
\<close>

definition three_queued :: TextureManager where
  "three_queued =
     \<lparr>tm_size = 1024, knapsacks = [],
      queue = Some [\<lparr>width = Num 50, height = Num 50, promise = 0\<rparr>,
                    \<lparr>width = Num 10, height = Num 10, promise = 1\<rparr>,
                    \<lparr>width = Num 100, height = Num 100, promise = 2\<rparr>],
      uuid_gen = 0, promises = [Pending, Pending, Pending], settled = []\<rparr>"

definition one_sprite :: TextureManager where
  "one_sprite =
     \<lparr>tm_size = 1024, knapsacks = [\<lparr>textureSize = 1024, rootNode = tree_one_sprite\<rparr>],
      queue = None, uuid_gen = 1, promises = [], settled = []\<rparr>"

text \<open>
  The manager after \<open>solveASync()\<close> on the three queued requests; the manager with one
  sprite after its node was asked for its \<open>texture\<close>, and after that node was released.
\<close>

definition three_solved :: TextureManager where
  "three_solved =
     \<lparr>tm_size = 1024,
      knapsacks = [\<lparr>textureSize = 1024, rootNode =
        Branch \<lparr>rleft = 0, rtop = 0, rright = 1024, rbottom = 1024\<rparr> None None
          (Branch \<lparr>rleft = 0, rtop = 0, rright = 1024, rbottom = 50\<rparr> None None
             (Leaf \<lparr>rleft = 0, rtop = 0, rright = 50, rbottom = 50\<rparr> (Some 0) None)
             (Branch \<lparr>rleft = 50, rtop = 0, rright = 1024, rbottom = 50\<rparr> None None
                (Branch \<lparr>rleft = 50, rtop = 0, rright = 60, rbottom = 50\<rparr> None None
                   (Leaf \<lparr>rleft = 50, rtop = 0, rright = 60, rbottom = 10\<rparr> (Some 2) None)
                   (Leaf \<lparr>rleft = 50, rtop = 10, rright = 60, rbottom = 50\<rparr> None None))
                (Leaf \<lparr>rleft = 60, rtop = 0, rright = 1024, rbottom = 50\<rparr> None None)))
          (Branch \<lparr>rleft = 0, rtop = 50, rright = 1024, rbottom = 1024\<rparr> None None
             (Branch \<lparr>rleft = 0, rtop = 50, rright = 100, rbottom = 1024\<rparr> None None
                (Leaf \<lparr>rleft = 0, rtop = 50, rright = 100, rbottom = 150\<rparr> (Some 3) None)
                (Leaf \<lparr>rleft = 0, rtop = 150, rright = 100, rbottom = 1024\<rparr> None None))
             (Leaf \<lparr>rleft = 100, rtop = 50, rright = 1024, rbottom = 1024\<rparr> None None))\<rparr>],
      queue = Some [], uuid_gen = 4,
      promises = [Resolved (Some (0, [LeftChild, LeftChild])),
                  Resolved (Some (0, [LeftChild, RightChild, LeftChild, LeftChild])),
                  Resolved (Some (0, [RightChild, LeftChild, LeftChild]))],
      settled = [0, 1, 2]\<rparr>"

definition one_sprite_textured :: TextureManager where
  "one_sprite_textured =
     \<lparr>tm_size = 1024,
      knapsacks = [\<lparr>textureSize = 1024, rootNode =
        Branch \<lparr>rleft = 0, rtop = 0, rright = 1024, rbottom = 1024\<rparr> None None
          (Branch \<lparr>rleft = 0, rtop = 0, rright = 1024, rbottom = 10\<rparr> None None
             (Leaf \<lparr>rleft = 0, rtop = 0, rright = 10, rbottom = 10\<rparr> (Some 0)
                (Some \<lparr>offset_x = 0, offset_y = 1014 / 1024,
                        repeat_x = 10 / 1024, repeat_y = 10 / 1024\<rparr>))
             (Leaf \<lparr>rleft = 10, rtop = 0, rright = 1024, rbottom = 10\<rparr> None None))
          (Leaf \<lparr>rleft = 0, rtop = 10, rright = 1024, rbottom = 1024\<rparr> None None)\<rparr>],
      queue = None, uuid_gen = 1, promises = [], settled = []\<rparr>"

definition one_sprite_released :: TextureManager where
  "one_sprite_released =
     \<lparr>tm_size = 1024,
      knapsacks = [\<lparr>textureSize = 1024, rootNode =
        Branch \<lparr>rleft = 0, rtop = 0, rright = 1024, rbottom = 1024\<rparr> None None
          (Branch \<lparr>rleft = 0, rtop = 0, rright = 1024, rbottom = 10\<rparr> None None
             (Leaf \<lparr>rleft = 0, rtop = 0, rright = 10, rbottom = 10\<rparr> None None)
             (Leaf \<lparr>rleft = 10, rtop = 0, rright = 1024, rbottom = 10\<rparr> None None))
          (Leaf \<lparr>rleft = 0, rtop = 10, rright = 1024, rbottom = 1024\<rparr> None None)\<rparr>],
      queue = None, uuid_gen = 1, promises = [], settled = []\<rparr>"

section \<open>Unfolding \<open>allocate\<close>\<close>

lemma allocate_Branch:
  "allocate w h (Branch r i t lc rc) g =
     Option.bind (allocate w h lc g) (\<lambda>(newNode, lc', g').
       case newNode of
         Some p \<Rightarrow> Some (Some (LeftChild # p), Branch r i t (fst (claim_at p lc' g')) rc, snd (claim_at p lc' g'))
       | None \<Rightarrow> Option.bind (allocate w h rc g') (\<lambda>(res, rc', g'').
                 Some (map_option ((#) RightChild) res, Branch r i t lc' rc', g'')))"
  by (subst allocate.simps) simp

lemma allocate_Leaf:
  "allocate w h (Leaf r i t) g =
     (if i \<noteq> None then Some (None, Leaf r i t, g)
      else if js_gt w (Num (Rect_width r)) \<or> js_gt h (Num (Rect_height r))
        then Some (None, Leaf r i t, g)
      else if js_eq w (Num (Rect_width r)) \<and> js_eq h (Num (Rect_height r))
        then Some (Some [], fst (claim (Leaf r i t) g), snd (claim (Leaf r i t) g))
      else Option.bind (allocate w h (Leaf (fst (split_rects w h r)) None None) g)
             (\<lambda>(res, lc', g'). Some (map_option ((#) LeftChild) res,
                Branch r i t lc' (Leaf (snd (split_rects w h r)) None None), g')))"
  by (subst allocate.simps) simp

lemma split_rects_int:
  "split_rects (Num w) (Num h) r =
     (if Rect_width r - w > Rect_height r - h
      then (\<lparr>rleft = rleft r, rtop = rtop r, rright = rleft r + w, rbottom = rbottom r\<rparr>,
            \<lparr>rleft = rleft r + w, rtop = rtop r, rright = rright r, rbottom = rbottom r\<rparr>)
      else (\<lparr>rleft = rleft r, rtop = rtop r, rright = rright r, rbottom = rtop r + h\<rparr>,
            \<lparr>rleft = rleft r, rtop = rtop r + h, rright = rright r, rbottom = rbottom r\<rparr>))"
  by (simp add: split_rects_def new_KnapsackRectangle_def)

lemma split_left_fits:
  assumes "w \<le> Rect_width r" "h \<le> Rect_height r" "\<not> (w = Rect_width r \<and> h = Rect_height r)"
  shows "w \<le> Rect_width (fst (split_rects (Num w) (Num h) r))"
    and "h \<le> Rect_height (fst (split_rects (Num w) (Num h) r))"
    and "mismatch w h (fst (split_rects (Num w) (Num h) r)) < mismatch w h r"
  using assms by (auto simp: split_rects_int mismatch_def Rect_width_def Rect_height_def)

lemma allocate_int_leaf_rule:
  assumes occupied: "\<And>r i t g. i \<noteq> None \<Longrightarrow> P (Leaf r i t) g (None, Leaf r i t, g)"
    and small: "\<And>r t g. w > Rect_width r \<or> h > Rect_height r \<Longrightarrow>
                  P (Leaf r None t) g (None, Leaf r None t, g)"
    and exact: "\<And>r t g. w = Rect_width r \<Longrightarrow> h = Rect_height r \<Longrightarrow>
                  P (Leaf r None t) g (Some [], Leaf r (Some g) t, Suc g)"
    and split: "\<And>r t g res lc' g'. w \<le> Rect_width r \<Longrightarrow> h \<le> Rect_height r \<Longrightarrow>
                  \<not> (w = Rect_width r \<and> h = Rect_height r) \<Longrightarrow>
                  allocate (Num w) (Num h) (Leaf (fst (split_rects (Num w) (Num h) r)) None None) g
                    = Some (res, lc', g') \<Longrightarrow>
                  P (Leaf (fst (split_rects (Num w) (Num h) r)) None None) g (res, lc', g') \<Longrightarrow>
                  P (Leaf r None t) g (map_option ((#) LeftChild) res,
                     Branch r None t lc' (Leaf (snd (split_rects (Num w) (Num h) r)) None None), g')"
  shows "\<exists>res. allocate (Num w) (Num h) (Leaf r i t) g = Some res \<and> P (Leaf r i t) g res"
proof (induction "mismatch w h r" arbitrary: r i t rule: less_induct)
  case less
  show ?case
  proof (cases "i \<noteq> None")
    case True
    then show ?thesis using occupied[of i r t g] by (simp add: allocate_Leaf)
  next
    case free: False
    show ?thesis
    proof (cases "w > Rect_width r \<or> h > Rect_height r")
      case True
      then show ?thesis using free small[of r t g] by (auto simp add: allocate_Leaf)
    next
      case fits: False
      show ?thesis
      proof (cases "w = Rect_width r \<and> h = Rect_height r")
        case True
        then show ?thesis using free fits exact[of r t g]
          by (simp add: allocate_Leaf claim_def generateUUID_def)
      next
        case False
        let ?l = "fst (split_rects (Num w) (Num h) r)"
        from fits False have m: "mismatch w h ?l < mismatch w h r"
          by (intro split_left_fits) auto
        from less[OF m, of None None] obtain res lc' g' where
          a: "allocate (Num w) (Num h) (Leaf ?l None None) g = Some (res, lc', g')"
          and p: "P (Leaf ?l None None) g (res, lc', g')"
          by (metis prod_cases3)
        from split[OF _ _ False a p, of t] fits free a show ?thesis
          by (subst allocate_Leaf) (simp add: False not_less)
      qed
    qed
  qed
qed

lemma allocate_int_rule:
  assumes occupied: "\<And>r i t g. i \<noteq> None \<Longrightarrow> P (Leaf r i t) g (None, Leaf r i t, g)"
    and small: "\<And>r t g. w > Rect_width r \<or> h > Rect_height r \<Longrightarrow>
                  P (Leaf r None t) g (None, Leaf r None t, g)"
    and exact: "\<And>r t g. w = Rect_width r \<Longrightarrow> h = Rect_height r \<Longrightarrow>
                  P (Leaf r None t) g (Some [], Leaf r (Some g) t, Suc g)"
    and split: "\<And>r t g res lc' g'. w \<le> Rect_width r \<Longrightarrow> h \<le> Rect_height r \<Longrightarrow>
                  \<not> (w = Rect_width r \<and> h = Rect_height r) \<Longrightarrow>
                  allocate (Num w) (Num h) (Leaf (fst (split_rects (Num w) (Num h) r)) None None) g
                    = Some (res, lc', g') \<Longrightarrow>
                  P (Leaf (fst (split_rects (Num w) (Num h) r)) None None) g (res, lc', g') \<Longrightarrow>
                  P (Leaf r None t) g (map_option ((#) LeftChild) res,
                     Branch r None t lc' (Leaf (snd (split_rects (Num w) (Num h) r)) None None), g')"
    and left: "\<And>r i t lc rc g p lc' g'.
                  allocate (Num w) (Num h) lc g = Some (Some p, lc', g') \<Longrightarrow>
                  P lc g (Some p, lc', g') \<Longrightarrow>
                  P (Branch r i t lc rc) g
                    (Some (LeftChild # p), Branch r i t (fst (claim_at p lc' g')) rc, Suc g')"
    and right: "\<And>r i t lc rc g lc' g' res rc' g''.
                  allocate (Num w) (Num h) lc g = Some (None, lc', g') \<Longrightarrow>
                  P lc g (None, lc', g') \<Longrightarrow>
                  allocate (Num w) (Num h) rc g' = Some (res, rc', g'') \<Longrightarrow>
                  P rc g' (res, rc', g'') \<Longrightarrow>
                  P (Branch r i t lc rc) g
                    (map_option ((#) RightChild) res, Branch r i t lc' rc', g'')"
  shows "\<exists>res. allocate (Num w) (Num h) n g = Some res \<and> P n g res"
proof (induction n arbitrary: g)
  case (Leaf r i t)
  show ?case by (rule allocate_int_leaf_rule[OF occupied small exact split])
next
  case (Branch r i t lc rc)
  from Branch.IH(1)[of g] obtain newNode lc' g' where
    a: "allocate (Num w) (Num h) lc g = Some (newNode, lc', g')"
    and p: "P lc g (newNode, lc', g')"
    by (metis prod_cases3)
  show ?case
  proof (cases newNode)
    case (Some q)
    with left[of lc g q lc' g' r i t rc] a p show ?thesis
      by (simp add: allocate_Branch claim_at_def generateUUID_def)
  next
    case None
    from Branch.IH(2)[of g'] obtain res rc' g'' where
      b: "allocate (Num w) (Num h) rc g' = Some (res, rc', g'')"
      and q: "P rc g' (res, rc', g'')"
      by (metis prod_cases3)
    from right[of lc g lc' g' rc res rc' g'' r i t] a p b q None show ?thesis
      by (simp add: allocate_Branch)
  qed
qed

lemmas eval_allocate =
  allocate_Leaf allocate_Branch split_rects_int Rect_width_def Rect_height_def
  claim_def claim_at_def generateUUID_def new_KnapsackNode_def new_KnapsackRectangle_def

lemmas eval_manager =
  new_TextureManager_def valid_sizes_def TM_allocateASync_def TM__validateSize_def
  new_promise_def TM_allocate_def TM__allocate_def TM__addKnapsack_def
  Knapsack_allocateNode_def new_Knapsack_def

lemma node_at_update_at: "node_at p (update_at p f n) = map_option f (node_at p n)"
  by (induction p f n rule: update_at.induct) simp_all

lemma rectangle_update_at:
  "(\<And>x. rectangle (f x) = rectangle x) \<Longrightarrow> rectangle (update_at p f n) = rectangle n"
  by (induction p f n rule: update_at.induct) simp_all

lemma rectangle_set_imageID [simp]: "rectangle (set_imageID v n) = rectangle n"
  by (cases n) simp_all

lemma rectangle_set_texture [simp]: "rectangle (set_texture v n) = rectangle n"
  by (cases n) simp_all

lemma allocate_int_total: "\<exists>res. allocate (Num w) (Num h) n g = Some res"
  using allocate_int_rule [where P = "\<lambda>n g res. True" and w = w and h = h and n = n and g = g]
  by simp

lemma allocate_int_exact:
  assumes "allocate (Num w) (Num h) n g = Some (Some p, n', g')"
  shows "\<exists>r i t. node_at p n' = Some (Leaf r (Some i) t) \<and> Rect_width r = w \<and> Rect_height r = h"
proof -
  let ?P = "\<lambda>(n::KnapsackNode) (g::nat) res. case res of (None, n', g') \<Rightarrow> True
      | (Some p, n', g') \<Rightarrow>
          (\<exists>r i t. node_at p n' = Some (Leaf r (Some i) t) \<and> Rect_width r = w \<and> Rect_height r = h)"
  have "\<exists>res. allocate (Num w) (Num h) n g = Some res \<and> ?P n g res"
  proof (rule allocate_int_rule)
    fix r i t lc rc and g :: nat and p lc' and g' :: nat
    assume "?P lc g (Some p, lc', g')"
    then show "?P (Branch r i t lc rc) g
        (Some (LeftChild # p), Branch r i t (fst (claim_at p lc' g')) rc, Suc g')"
      by (auto simp: claim_at_def node_at_update_at claim_def)
  qed (auto split: option.splits)
  with assms show ?thesis by simp
qed

lemma allocate_int_fits:
  assumes "w \<le> Rect_width r" "h \<le> Rect_height r"
  shows "\<exists>p n' g'. allocate (Num w) (Num h) (Leaf r None t) g = Some (Some p, n', g')"
proof -
  let ?P = "\<lambda>n (g::nat) (res :: path option \<times> KnapsackNode \<times> nat).
      (\<forall>r t. n = Leaf r None t \<and> w \<le> Rect_width r \<and> h \<le> Rect_height r \<longrightarrow> fst res \<noteq> None)"
  have "\<exists>res. allocate (Num w) (Num h) (Leaf r None t) g = Some res \<and> ?P (Leaf r None t) g res"
  proof (rule allocate_int_rule)
    fix r t and g :: nat and res lc' and g' :: nat
    assume "w \<le> Rect_width r" "h \<le> Rect_height r" "\<not> (w = Rect_width r \<and> h = Rect_height r)"
      and "?P (Leaf (fst (split_rects (Num w) (Num h) r)) None None) g (res, lc', g')"
    then show "?P (Leaf r None t) g (map_option ((#) LeftChild) res,
        Branch r None t lc' (Leaf (snd (split_rects (Num w) (Num h) r)) None None), g')"
      using split_left_fits(1,2)[of w r h] by auto
  qed auto
  with assms show ?thesis by (metis prod.collapse not_None_eq)
qed

lemma imageID_set_imageID [simp]: "imageID (set_imageID v n) = v"
  by (cases n) simp_all

section \<open>Texture coordinates\<close>

text \<open>
  C8. For a node with rectangle (l, t, r, b) in a knapsack of one of the eight sizes,
  \<open>uvCoordinates()\<close> is [l/size, 1 - b/size, r/size, 1 - t/size]; the texture built on first
  use gets the offset (l/size, 1 - b/size) and the repeat
  (r/size - l/size, (1 - t/size) - (1 - b/size)) and is cached; for (0, 0, 100, 50) on a
  surface of 1024 the coordinates are [0, 1 - 50/1024, 100/1024, 1].
\<close>

theorem uvCoordinates_and_texture:
  assumes "tsize \<in> set valid_sizes"
    and "rectangle n = \<lparr>rleft = l, rtop = t, rright = r, rbottom = b\<rparr>"
  shows "uvCoordinates tsize n =
           [of_int l / of_int tsize, 1 - of_int b / of_int tsize,
            of_int r / of_int tsize, 1 - of_int t / of_int tsize]
       \<and> (texture_cache n = None \<longrightarrow>
            fst (get_texture tsize n) =
              \<lparr>offset_x = of_int l / of_int tsize,
               offset_y = 1 - of_int b / of_int tsize,
               repeat_x = of_int r / of_int tsize - of_int l / of_int tsize,
               repeat_y = (1 - of_int t / of_int tsize) - (1 - of_int b / of_int tsize)\<rparr>
            \<and> texture_cache (snd (get_texture tsize n)) = Some (fst (get_texture tsize n)))
       \<and> uvCoordinates 1024 (Leaf \<lparr>rleft = 0, rtop = 0, rright = 100, rbottom = 50\<rparr> i c) =
           [0, 1 - 50 / 1024, 100 / 1024, 1]"
  using assms by (cases n) (simp_all add: uvCoordinates_def get_texture_def Let_def)

theorem uvCoordinates_and_texture_witness:
  "(1024::int) \<in> set valid_sizes
   \<and> uvCoordinates 1024 (Leaf \<lparr>rleft = 0, rtop = 0, rright = 100, rbottom = 50\<rparr> None None) =
       [0, 974 / 1024, 100 / 1024, 1]
   \<and> fst (get_texture 1024 (Leaf \<lparr>rleft = 0, rtop = 0, rright = 100, rbottom = 50\<rparr> None None)) =
       \<lparr>offset_x = 0, offset_y = 974 / 1024, repeat_x = 100 / 1024, repeat_y = 50 / 1024\<rparr>"
proof -
  have v: "(1024::int) \<in> set valid_sizes" by (simp add: valid_sizes_def)
  have r: "rectangle (Leaf \<lparr>rleft = 0, rtop = 0, rright = 100, rbottom = 50\<rparr> None None) =
           \<lparr>rleft = 0, rtop = 0, rright = 100, rbottom = 50\<rparr>" by simp
  show ?thesis
    using v uvCoordinates_and_texture [OF v r, of None None] by simp
qed

section \<open>Release\<close>

lemma update_at_same: "node_at p n = Some x \<Longrightarrow> update_at p (\<lambda>_. x) n = n"
  by (induction p n rule: node_at.induct) simp_all

lemma lookup_store_node:
  assumes "lookup_node m ref = Some x"
  shows "lookup_node (store_node m ref n) ref = Some n"
  using assms
  by (auto simp: lookup_node_def store_node_def node_at_update_at split: if_splits)

lemma store_node_same:
  assumes "lookup_node m ref = Some x"
  shows "store_node m ref x = m"
  using assms
  by (auto simp: lookup_node_def store_node_def update_at_same split: if_splits)

lemma store_node_others:
  "length (knapsacks (store_node m ref n)) = length (knapsacks m)"
  "j \<noteq> fst ref \<Longrightarrow> knapsacks (store_node m ref n) ! j = knapsacks m ! j"
  by (simp_all add: store_node_def)

text \<open>
  C9. \<open>release()\<close> on a node throws exactly when the node has children. On a node without
  children it clears the identifier, calls \<open>dispose()\<close> on the cached texture if there is one
  and forgets it, so a second \<open>release()\<close> disposes nothing. \<open>release(node)\<close> of the manager
  does nothing for a falsy argument and otherwise is \<open>node.release()\<close>: for a node of the
  manager that has children it throws; for one that has none, the node is found in the
  manager afterwards free and without texture, at its place and with its rectangle, the
  other knapsacks are as they were, the textures disposed are the cached one if there was
  one, and a second \<open>release\<close> of that node changes nothing and disposes nothing.
\<close>

theorem release_raises_iff_children:
  "((\<exists>e. release n = Inl e) \<longleftrightarrow> hasChildren n)
   \<and> (\<not> hasChildren n \<longrightarrow>
        (\<exists>n'. release n = Inr (n', case texture_cache n of None \<Rightarrow> [] | Some t \<Rightarrow> [t])
           \<and> \<not> isOccupied n' \<and> \<not> hasChildren n' \<and> texture_cache n' = None
           \<and> rectangle n' = rectangle n
           \<and> release n' = Inr (n', [])))
   \<and> TM_release m None = Inr (m, [])
   \<and> TM_release m (Some ref) = Node_release m ref
   \<and> (lookup_node m ref = Some x \<longrightarrow>
        Node_release m ref =
          (case release x of
             Inl e \<Rightarrow> Inl e
           | Inr (x', disposed) \<Rightarrow> Inr (store_node m ref x', disposed)))
   \<and> (lookup_node m ref = Some x \<and> hasChildren x \<longrightarrow>
        TM_release m (Some ref) = Inl StillHasChildren)
   \<and> (lookup_node m ref = Some x \<and> \<not> hasChildren x \<longrightarrow>
        (\<exists>m' x'. TM_release m (Some ref) =
                    Inr (m', case texture_cache x of None \<Rightarrow> [] | Some t \<Rightarrow> [t])
           \<and> lookup_node m' ref = Some x'
           \<and> \<not> isOccupied x' \<and> \<not> hasChildren x' \<and> texture_cache x' = None
           \<and> rectangle x' = rectangle x
           \<and> length (knapsacks m') = length (knapsacks m)
           \<and> (\<forall>j. j \<noteq> fst ref \<longrightarrow> knapsacks m' ! j = knapsacks m ! j)
           \<and> TM_release m' (Some ref) = Inr (m', [])))"
proof -
  have node: "((\<exists>e. release n = Inl e) \<longleftrightarrow> hasChildren n)
   \<and> (\<not> hasChildren n \<longrightarrow>
        (\<exists>n'. release n = Inr (n', case texture_cache n of None \<Rightarrow> [] | Some t \<Rightarrow> [t])
           \<and> \<not> isOccupied n' \<and> \<not> hasChildren n' \<and> texture_cache n' = None
           \<and> rectangle n' = rectangle n
           \<and> release n' = Inr (n', [])))"
    by (cases n) (simp_all add: release_def isOccupied_def)
  have deleg: "TM_release m None = Inr (m, []) \<and> TM_release m (Some ref) = Node_release m ref
   \<and> (lookup_node m ref = Some x \<longrightarrow>
        Node_release m ref =
          (case release x of
             Inl e \<Rightarrow> Inl e
           | Inr (x', disposed) \<Rightarrow> Inr (store_node m ref x', disposed)))"
    by (simp add: TM_release_def Node_release_def)
  have branch: "lookup_node m ref = Some x \<and> hasChildren x \<longrightarrow>
        TM_release m (Some ref) = Inl StillHasChildren"
    by (simp add: TM_release_def Node_release_def release_def)
  have leaf: "lookup_node m ref = Some x \<and> \<not> hasChildren x \<longrightarrow>
        (\<exists>m' x'. TM_release m (Some ref) =
                    Inr (m', case texture_cache x of None \<Rightarrow> [] | Some t \<Rightarrow> [t])
           \<and> lookup_node m' ref = Some x'
           \<and> \<not> isOccupied x' \<and> \<not> hasChildren x' \<and> texture_cache x' = None
           \<and> rectangle x' = rectangle x
           \<and> length (knapsacks m') = length (knapsacks m)
           \<and> (\<forall>j. j \<noteq> fst ref \<longrightarrow> knapsacks m' ! j = knapsacks m ! j)
           \<and> TM_release m' (Some ref) = Inr (m', []))"
  proof
    assume a: "lookup_node m ref = Some x \<and> \<not> hasChildren x"
    then obtain r i t where x: "x = Leaf r i t" by (cases x) auto
    let ?x' = "Leaf r None None"
    let ?m' = "store_node m ref ?x'"
    from a have l: "lookup_node ?m' ref = Some ?x'" by (simp add: lookup_store_node)
    from a x have 1: "TM_release m (Some ref) =
                    Inr (?m', case texture_cache x of None \<Rightarrow> [] | Some t \<Rightarrow> [t])"
      by (simp add: TM_release_def Node_release_def release_def)
    from l have 2: "TM_release ?m' (Some ref) = Inr (?m', [])"
      by (simp add: TM_release_def Node_release_def release_def store_node_same)
    from 1 2 l x show "\<exists>m' x'. TM_release m (Some ref) =
                    Inr (m', case texture_cache x of None \<Rightarrow> [] | Some t \<Rightarrow> [t])
           \<and> lookup_node m' ref = Some x'
           \<and> \<not> isOccupied x' \<and> \<not> hasChildren x' \<and> texture_cache x' = None
           \<and> rectangle x' = rectangle x
           \<and> length (knapsacks m') = length (knapsacks m)
           \<and> (\<forall>j. j \<noteq> fst ref \<longrightarrow> knapsacks m' ! j = knapsacks m ! j)
           \<and> TM_release m' (Some ref) = Inr (m', [])"
      by (intro exI [of _ ?m'] exI [of _ ?x']) (simp add: isOccupied_def store_node_others)
  qed
  from node deleg branch leaf show ?thesis by blast
qed

theorem release_raises_iff_children_witness:
  "run [Allocate (Num 10) (Num 10), GetTexture (0, [LeftChild, LeftChild])]
       (new_TextureManager (Num 1024)) = Some one_sprite_textured
   \<and> lookup_node one_sprite_textured (0, [LeftChild, LeftChild]) =
       Some (Leaf \<lparr>rleft = 0, rtop = 0, rright = 10, rbottom = 10\<rparr> (Some 0)
          (Some \<lparr>offset_x = 0, offset_y = 1014 / 1024, repeat_x = 10 / 1024, repeat_y = 10 / 1024\<rparr>))
   \<and> TM_release one_sprite_textured (Some (0, [LeftChild, LeftChild])) =
       Inr (one_sprite_released,
            [\<lparr>offset_x = 0, offset_y = 1014 / 1024, repeat_x = 10 / 1024, repeat_y = 10 / 1024\<rparr>])
   \<and> lookup_node one_sprite_released (0, [LeftChild, LeftChild]) =
       Some (Leaf \<lparr>rleft = 0, rtop = 0, rright = 10, rbottom = 10\<rparr> None None)
   \<and> TM_release one_sprite_released (Some (0, [LeftChild, LeftChild])) =
       Inr (one_sprite_released, [])
   \<and> TM_release one_sprite_released (Some (0, [LeftChild])) = Inl StillHasChildren"
proof -
  have r: "run [Allocate (Num 10) (Num 10), GetTexture (0, [LeftChild, LeftChild])]
       (new_TextureManager (Num 1024)) = Some one_sprite_textured"
    by (simp add: eval_manager eval_allocate one_sprite_textured_def lookup_node_def
          store_node_def get_texture_def uvCoordinates_def Let_def)
  have l: "lookup_node one_sprite_textured (0, [LeftChild, LeftChild]) =
       Some (Leaf \<lparr>rleft = 0, rtop = 0, rright = 10, rbottom = 10\<rparr> (Some 0)
          (Some \<lparr>offset_x = 0, offset_y = 1014 / 1024, repeat_x = 10 / 1024, repeat_y = 10 / 1024\<rparr>))"
    by (simp add: one_sprite_textured_def lookup_node_def)
  have t: "TM_release one_sprite_textured (Some (0, [LeftChild, LeftChild])) =
       Inr (one_sprite_released,
            [\<lparr>offset_x = 0, offset_y = 1014 / 1024, repeat_x = 10 / 1024, repeat_y = 10 / 1024\<rparr>])"
    by (simp add: one_sprite_textured_def one_sprite_released_def TM_release_def Node_release_def
          release_def lookup_node_def store_node_def)
  have b: "lookup_node one_sprite_released (0, [LeftChild]) =
       Some (Branch \<lparr>rleft = 0, rtop = 0, rright = 1024, rbottom = 10\<rparr> None None
             (Leaf \<lparr>rleft = 0, rtop = 0, rright = 10, rbottom = 10\<rparr> None None)
             (Leaf \<lparr>rleft = 10, rtop = 0, rright = 1024, rbottom = 10\<rparr> None None))"
    by (simp add: one_sprite_released_def lookup_node_def)
  from release_raises_iff_children
    [of "Leaf \<lparr>rleft = 0, rtop = 0, rright = 10, rbottom = 10\<rparr> (Some 0) None"
        one_sprite_textured "(0, [LeftChild, LeftChild])"
        "Leaf \<lparr>rleft = 0, rtop = 0, rright = 10, rbottom = 10\<rparr> (Some 0)
          (Some \<lparr>offset_x = 0, offset_y = 1014 / 1024, repeat_x = 10 / 1024, repeat_y = 10 / 1024\<rparr>)"]
    l t
  have s: "lookup_node one_sprite_released (0, [LeftChild, LeftChild]) =
       Some (Leaf \<lparr>rleft = 0, rtop = 0, rright = 10, rbottom = 10\<rparr> None None)
     \<and> TM_release one_sprite_released (Some (0, [LeftChild, LeftChild])) =
       Inr (one_sprite_released, [])"
    by (auto simp: one_sprite_released_def lookup_node_def)
  from release_raises_iff_children
    [of "Leaf \<lparr>rleft = 0, rtop = 0, rright = 10, rbottom = 10\<rparr> (Some 0) None"
        one_sprite_released "(0, [LeftChild])"
        "Branch \<lparr>rleft = 0, rtop = 0, rright = 1024, rbottom = 10\<rparr> None None
             (Leaf \<lparr>rleft = 0, rtop = 0, rright = 10, rbottom = 10\<rparr> None None)
             (Leaf \<lparr>rleft = 10, rtop = 0, rright = 1024, rbottom = 10\<rparr> None None)"] b
  have e: "TM_release one_sprite_released (Some (0, [LeftChild])) = Inl StillHasChildren"
    by (simp add: release_def)
  from r l t s e show ?thesis by simp
qed

section \<open>Size validation\<close>

text \<open>
  C3. When the width or the height is greater than the size of the manager, \<open>allocate\<close>
  throws a size error and \<open>allocateNode\<close> returns a promise rejected with the same error,
  whatever the knapsacks hold, also when there is none; the knapsacks stay as they are.
\<close>

theorem oversize_raises_SizeError:
  assumes "js_gt w (Num (tm_size m)) \<or> js_gt h (Num (tm_size m))"
  shows "\<exists>e. is_SizeError e
           \<and> TM__validateSize m w h = Inl e
           \<and> TM_allocate m w h = Some (Inl e)
           \<and> exec (Allocate w h) m = Some m
           \<and> TM_allocateNode m w h = Some (new_promise (Rejected e) m)
           \<and> promises (snd (new_promise (Rejected e) m)) ! fst (new_promise (Rejected e) m) = Rejected e
           \<and> knapsacks (snd (new_promise (Rejected e) m)) = knapsacks m"
  using assms
  by (auto simp: TM__validateSize_def TM_allocate_def TM_allocateNode_def new_promise_def)

theorem oversize_raises_SizeError_witness:
  "js_gt (Num 2000) (Num (tm_size (new_TextureManager (Num 1024))))
   \<and> TM_allocate (new_TextureManager (Num 1024)) (Num 2000) (Num 10) = Some (Inl (WidthTooLarge (Num 2000)))
   \<and> knapsacks (new_TextureManager (Num 1024)) = []"
  using oversize_raises_SizeError [of "Num 2000" "new_TextureManager (Num 1024)" "Num 10"]
  by (simp add: new_TextureManager_def valid_sizes_def TM_allocate_def TM__validateSize_def)

text \<open>
  C10. \<open>_validateSize\<close> throws exactly when the width or the height is greater than the
  size of the manager. Zero, a negative number and \<open>NaN\<close> pass; after a check that passed,
  \<open>allocate\<close> and \<open>allocateNode\<close> go on to \<open>_allocate\<close> and \<open>allocateASync\<close> queues the request.
\<close>

theorem validateSize_checks_upper_bound_only:
  assumes "tm_size m \<in> set valid_sizes"
  shows "((\<exists>e. TM__validateSize m w h = Inl e) \<longleftrightarrow>
            (js_gt w (Num (tm_size m)) \<or> js_gt h (Num (tm_size m))))
       \<and> ((w = NaN \<or> (\<exists>a \<le> 0. w = Num a)) \<and> (h = NaN \<or> (\<exists>b \<le> 0. h = Num b)) \<longrightarrow>
            TM__validateSize m w h = Inr ())
       \<and> (TM__validateSize m w h = Inr () \<longrightarrow>
            TM_allocate m w h = map_option Inr (TM__allocate m w h)
            \<and> TM_allocateNode m w h =
                (case TM__allocate m w h of
                   None \<Rightarrow> None
                 | Some (node, m') \<Rightarrow> Some (new_promise (Resolved node) m'))
            \<and> (\<exists>q. queue (snd (TM_allocateASync m w h)) =
                  Some (q @ [\<lparr>width = w, height = h, promise = fst (TM_allocateASync m w h)\<rparr>])))"
  using assms
  by (auto simp: TM__validateSize_def TM_allocate_def TM_allocateNode_def TM_allocateASync_def
        new_promise_def valid_sizes_def Let_def)

theorem validateSize_checks_upper_bound_only_witness:
  "tm_size (new_TextureManager (Num 512)) \<in> set valid_sizes
   \<and> TM__validateSize (new_TextureManager (Num 512)) NaN (Num (- 3)) = Inr ()
   \<and> TM__validateSize (new_TextureManager (Num 512)) (Num 0) NaN = Inr ()
   \<and> queue (snd (TM_allocateASync (new_TextureManager (Num 512)) NaN (Num (- 3)))) =
       Some [\<lparr>width = NaN, height = Num (- 3), promise = 0\<rparr>]"
proof -
  have v: "tm_size (new_TextureManager (Num 512)) \<in> set valid_sizes"
    by (simp add: new_TextureManager_def valid_sizes_def)
  show ?thesis
    using v validateSize_checks_upper_bound_only [OF v, of NaN "Num (- 3)"]
    by (simp add: TM__validateSize_def TM_allocateASync_def new_promise_def
          new_TextureManager_def valid_sizes_def)
qed

section \<open>Allocation in a tree\<close>

text \<open>
  C7. A free leaf that is large enough for integers \<open>w\<close> and \<open>h\<close> and is not of exactly that
  size gets two new children. If its width less \<open>w\<close> is greater than its height less \<open>h\<close>,
  the first child has the width \<open>w\<close> and the full height and the second child is the rest of
  the width; otherwise the first child has the height \<open>h\<close> and the full width and the second
  child is the rest of the height. The allocation goes on in the first child, and what it
  returns is returned.
\<close>

theorem split_of_a_free_leaf:
  assumes "w \<le> Rect_width r" and "h \<le> Rect_height r"
    and "\<not> (w = Rect_width r \<and> h = Rect_height r)"
  shows "allocate (Num w) (Num h) (Leaf r None t) g =
           (let first = (if Rect_width r - w > Rect_height r - h
                         then \<lparr>rleft = rleft r, rtop = rtop r, rright = rleft r + w, rbottom = rbottom r\<rparr>
                         else \<lparr>rleft = rleft r, rtop = rtop r, rright = rright r, rbottom = rtop r + h\<rparr>);
                second = (if Rect_width r - w > Rect_height r - h
                          then \<lparr>rleft = rleft r + w, rtop = rtop r, rright = rright r, rbottom = rbottom r\<rparr>
                          else \<lparr>rleft = rleft r, rtop = rtop r + h, rright = rright r, rbottom = rbottom r\<rparr>)
            in case allocate (Num w) (Num h) (Leaf first None None) g of
                 None \<Rightarrow> None
               | Some (res, first', g') \<Rightarrow>
                   Some (map_option ((#) LeftChild) res, Branch r None t first' (Leaf second None None), g'))"
  using assms
  by (subst allocate_Leaf) (auto simp: split_rects_int Let_def split: option.splits)

theorem split_of_a_free_leaf_witness:
  "(10::int) \<le> Rect_width \<lparr>rleft = 0, rtop = 0, rright = 1024, rbottom = 1024\<rparr>
   \<and> (10::int) \<le> Rect_height \<lparr>rleft = 0, rtop = 0, rright = 1024, rbottom = 1024\<rparr>
   \<and> allocate (Num 10) (Num 10) (Leaf \<lparr>rleft = 0, rtop = 0, rright = 1024, rbottom = 1024\<rparr> None None) 0 =
       Some (Some [LeftChild, LeftChild], tree_one_sprite, 1)"
  using split_of_a_free_leaf
    [of 10 "\<lparr>rleft = 0, rtop = 0, rright = 1024, rbottom = 1024\<rparr>" 10 None 0]
  by (simp add: eval_allocate tree_one_sprite_def)

text \<open>
  C2, as stated, fails: a second \<open>allocate(10, 10)\<close> on a surface of 1024 makes two
  identifiers, 1 and 2; the leaf it returns is given 1 where it is accepted and 2 by the
  root, which got it from its left child.
\<close>

theorem second_allocation_claims_twice:
  "allocate (Num 10) (Num 10) (new_KnapsackNode 1024) 0 =
     Some (Some [LeftChild, LeftChild], tree_one_sprite, 1)
   \<and> allocate (Num 10) (Num 10) tree_one_sprite 1 =
     Some (Some [LeftChild, RightChild, LeftChild], tree_two_sprites, 3)
   \<and> node_at [LeftChild, RightChild, LeftChild] tree_two_sprites =
     Some (Leaf \<lparr>rleft = 10, rtop = 0, rright = 20, rbottom = 10\<rparr> (Some 2) None)"
  by (simp add: eval_allocate tree_one_sprite_def tree_two_sprites_def)

text \<open>
  C2, amended. For integers \<open>w\<close> and \<open>h\<close>, \<open>allocate\<close> returns. When it returns null no
  identifier is made. When it returns a node, that node is given an identifier where it is
  accepted and once more by every node on the way to it that had children before the call
  and got it from its left child; the node keeps the last identifier made.
\<close>

theorem claims_of_one_allocation:
  "\<exists>res n' g'. allocate (Num w) (Num h) n g = Some (res, n', g')
       \<and> (res = None \<longrightarrow> g' = g)
       \<and> (\<forall>p. res = Some p \<longrightarrow>
            g' = g + 1 + left_turns n p
            \<and> map_option imageID (node_at p n') = Some (Some (g' - 1)))"
proof -
  let ?P = "\<lambda>(n::KnapsackNode) (g::nat) res. case res of
        (None, n', g') \<Rightarrow> g' = g
      | (Some p, n', g') \<Rightarrow>
          g' = g + 1 + left_turns n p \<and> map_option imageID (node_at p n') = Some (Some (g' - 1))"
  have "\<exists>res. allocate (Num w) (Num h) n g = Some res \<and> ?P n g res"
  proof (rule allocate_int_rule)
    fix r i t lc rc and g :: nat and p lc' and g' :: nat
    assume "?P lc g (Some p, lc', g')"
    then show "?P (Branch r i t lc rc) g
        (Some (LeftChild # p), Branch r i t (fst (claim_at p lc' g')) rc, Suc g')"
      by (auto simp: claim_at_def node_at_update_at claim_def generateUUID_def)
  qed (auto split: option.splits)
  then show ?thesis by (auto split: option.splits)
qed

theorem claims_of_one_allocation_witness:
  "allocate (Num 10) (Num 10) tree_one_sprite 1 =
     Some (Some [LeftChild, RightChild, LeftChild], tree_two_sprites, 3)
   \<and> left_turns tree_one_sprite [LeftChild, RightChild, LeftChild] = 1
   \<and> map_option imageID (node_at [LeftChild, RightChild, LeftChild] tree_two_sprites) = Some (Some 2)"
proof -
  have a: "allocate (Num 10) (Num 10) tree_one_sprite 1 =
     Some (Some [LeftChild, RightChild, LeftChild], tree_two_sprites, 3)"
    by (simp add: eval_allocate tree_one_sprite_def tree_two_sprites_def)
  show ?thesis
    using a claims_of_one_allocation [of 10 10 tree_one_sprite 1]
    by (simp add: tree_one_sprite_def)
qed

section \<open>Allocation by the manager\<close>

lemma Knapsack_allocateNode_int:
  "\<exists>res root' g'. allocate (Num w) (Num h) (rootNode k) g = Some (res, root', g')
      \<and> Knapsack_allocateNode (Num w) (Num h) k g = Some (res, k\<lparr>rootNode := root'\<rparr>, g')"
  using allocate_int_total [of w h "rootNode k" g]
  by (auto simp: Knapsack_allocateNode_def)

lemma forEach_knapsack_found:
  "forEach_knapsack w h i ks (Some x) g = Some (Some x, ks, g)"
  by (induction ks arbitrary: i) simp_all

lemma forEach_knapsack_int:
  "\<exists>node' ks' g'. forEach_knapsack (Num w) (Num h) i ks None g = Some (node', ks', g')
       \<and> length ks' = length ks
       \<and> (\<forall>j p. node' = Some (j, p) \<longrightarrow> i \<le> j \<and> j < i + length ks
             \<and> (\<exists>r iid t. node_at p (rootNode (ks' ! (j - i))) = Some (Leaf r (Some iid) t)
                    \<and> Rect_width r = w \<and> Rect_height r = h))"
proof (induction ks arbitrary: i g)
  case Nil
  show ?case by simp
next
  case (Cons k ks)
  from Knapsack_allocateNode_int [of w h k g] obtain res root' g1 where
    a: "allocate (Num w) (Num h) (rootNode k) g = Some (res, root', g1)"
    and b: "Knapsack_allocateNode (Num w) (Num h) k g = Some (res, k\<lparr>rootNode := root'\<rparr>, g1)"
    by blast
  show ?case
  proof (cases res)
    case None
    from Cons.IH [of "Suc i" g1] obtain node' ks' g' where
      c: "forEach_knapsack (Num w) (Num h) (Suc i) ks None g1 = Some (node', ks', g')"
      and l: "length ks' = length ks"
      and d: "\<forall>j p. node' = Some (j, p) \<longrightarrow> Suc i \<le> j \<and> j < Suc i + length ks
             \<and> (\<exists>r iid t. node_at p (rootNode (ks' ! (j - Suc i))) = Some (Leaf r (Some iid) t)
                    \<and> Rect_width r = w \<and> Rect_height r = h)"
      by blast
    have "\<And>j. Suc i \<le> j \<Longrightarrow> (k\<lparr>rootNode := root'\<rparr> # ks') ! (j - i) = ks' ! (j - Suc i)"
      by (simp add: Suc_diff_le)
    with None b c l d show ?thesis by auto
  next
    case (Some p)
    from allocate_int_exact [OF a [unfolded Some]] Some b show ?thesis
      by (auto simp: forEach_knapsack_found)
  qed
qed

lemma new_root_fits:
  assumes "w \<le> s" "h \<le> s"
  shows "\<exists>p n' g'. allocate (Num w) (Num h) (new_KnapsackNode s) g = Some (Some p, n', g')"
  unfolding new_KnapsackNode_def
  by (rule allocate_int_fits) (simp_all add: assms new_KnapsackRectangle_def Rect_width_def Rect_height_def)

text \<open>
  C1. For integers \<open>w\<close> and \<open>h\<close> from 1 to the size of the manager, \<open>allocate(w, h)\<close> returns
  a node without children, occupied, of width \<open>w\<close> and height \<open>h\<close>. When no knapsack there
  is gives a node, one knapsack of the size of the manager is added and the node is in it;
  otherwise no knapsack is added.
\<close>

theorem allocate_returns_node_of_exact_size:
  assumes "1 \<le> w" and "1 \<le> h" and "w \<le> tm_size m" and "h \<le> tm_size m"
  shows "\<exists>i p m' n.
           TM_allocate m (Num w) (Num h) = Some (Inr (Some (i, p), m'))
         \<and> lookup_node m' (i, p) = Some n
         \<and> \<not> hasChildren n \<and> isOccupied n \<and> Node_width n = w \<and> Node_height n = h
         \<and> (if \<exists>ks g. forEach_knapsack (Num w) (Num h) 0 (knapsacks m) None (uuid_gen m)
                        = Some (None, ks, g)
            then length (knapsacks m') = Suc (length (knapsacks m))
               \<and> i = length (knapsacks m)
               \<and> textureSize (knapsacks m' ! i) = tm_size m
            else length (knapsacks m') = length (knapsacks m) \<and> i < length (knapsacks m))"
proof -
  have v: "TM__validateSize m (Num w) (Num h) = Inr ()"
    using assms by (simp add: TM__validateSize_def)
  from forEach_knapsack_int [of w h 0 "knapsacks m" "uuid_gen m"] obtain node ks g where
    f: "forEach_knapsack (Num w) (Num h) 0 (knapsacks m) None (uuid_gen m) = Some (node, ks, g)"
    and l: "length ks = length (knapsacks m)"
    and d: "\<forall>j p. node = Some (j, p) \<longrightarrow> j < length (knapsacks m)
             \<and> (\<exists>r iid t. node_at p (rootNode (ks ! j)) = Some (Leaf r (Some iid) t)
                    \<and> Rect_width r = w \<and> Rect_height r = h)"
    by fastforce
  show ?thesis
  proof (cases node)
    case (Some ref)
    obtain j p where ref: "ref = (j, p)" by (cases ref)
    from d Some ref obtain r iid t where
      "j < length (knapsacks m)"
      "node_at p (rootNode (ks ! j)) = Some (Leaf r (Some iid) t)"
      "Rect_width r = w" "Rect_height r = h"
      by blast
    with v f l Some ref show ?thesis
      by (simp add: TM_allocate_def TM__allocate_def lookup_node_def isOccupied_def
            Node_width_def Node_height_def)
  next
    case None
    from new_root_fits [OF assms(3,4), of g] obtain p n' g' where
      a: "allocate (Num w) (Num h) (new_KnapsackNode (tm_size m)) g = Some (Some p, n', g')"
      by blast
    from allocate_int_exact [OF a] obtain r iid t where
      "node_at p n' = Some (Leaf r (Some iid) t)" "Rect_width r = w" "Rect_height r = h"
      by blast
    with v f l None a show ?thesis
      by (simp add: TM_allocate_def TM__allocate_def TM__addKnapsack_def Knapsack_allocateNode_def
            new_Knapsack_def lookup_node_def isOccupied_def Node_width_def Node_height_def
            nth_append)
  qed
qed

theorem allocate_returns_node_of_exact_size_witness:
  "(1::int) \<le> 100 \<and> (100::int) \<le> tm_size (new_TextureManager (Num 128))
   \<and> map_option (map_sum id fst) (TM_allocate (new_TextureManager (Num 128)) (Num 100) (Num 100)) =
       Some (Inr (Some (0, [LeftChild, LeftChild])))
   \<and> map_option (map_sum id (length \<circ> knapsacks \<circ> snd))
         (TM_allocate (new_TextureManager (Num 128)) (Num 100) (Num 100)) = Some (Inr 1)"
proof -
  have s: "tm_size (new_TextureManager (Num 128)) = 128"
    by (simp add: new_TextureManager_def valid_sizes_def)
  have k: "knapsacks (new_TextureManager (Num 128)) = []"
    by (simp add: new_TextureManager_def)
  show ?thesis
    using allocate_returns_node_of_exact_size [of 100 100 "new_TextureManager (Num 128)"]
    by (simp add: s k TM_allocate_def TM__allocate_def TM__validateSize_def TM__addKnapsack_def
          Knapsack_allocateNode_def new_Knapsack_def eval_allocate)
qed

section \<open>The queue\<close>

lemma TM__allocate_frame:
  assumes "TM__allocate m w h = Some (node, m')"
  shows "tm_size m' = tm_size m \<and> queue m' = queue m
       \<and> promises m' = promises m \<and> settled m' = settled m"
  using assms
  by (auto simp: TM__allocate_def TM__addKnapsack_def Let_def
           split: option.splits prod.splits if_splits)

lemma new_promise_frame:
  "tm_size (snd (new_promise st m)) = tm_size m"
  "queue (snd (new_promise st m)) = queue m"
  "knapsacks (snd (new_promise st m)) = knapsacks m"
  by (simp_all add: new_promise_def)

lemma settle_frame:
  "tm_size (settle p st m) = tm_size m"
  "queue (settle p st m) = queue m"
  "knapsacks (settle p st m) = knapsacks m"
  "uuid_gen (settle p st m) = uuid_gen m"
  by (simp_all add: settle_def)

lemma store_node_frame:
  "tm_size (store_node m ref n) = tm_size m"
  "queue (store_node m ref n) = queue m"
  "promises (store_node m ref n) = promises m"
  "settled (store_node m ref n) = settled m"
  by (simp_all add: store_node_def)

lemma forEach_entry_frame:
  "forEach_entry q m ps = Some (m', ps') \<Longrightarrow> tm_size m' = tm_size m \<and> queue m' = queue m"
proof (induction q arbitrary: m ps)
  case Nil
  then show ?case by simp
next
  case (Cons e q)
  then show ?case
    by (auto split: option.splits dest!: TM__allocate_frame simp: settle_frame)
qed

lemma TM_allocateASync_frame:
  "tm_size (snd (TM_allocateASync m w h)) = tm_size m"
  "queue (snd (TM_allocateASync m w h)) \<noteq> None"
  "knapsacks (snd (TM_allocateASync m w h)) = knapsacks m"
  by (auto simp: TM_allocateASync_def TM__validateSize_def new_promise_def Let_def)

lemma exec_queue:
  assumes "exec c m = Some m'"
  shows "tm_size m' = tm_size m
       \<and> (queue m' = None \<longleftrightarrow> queue m = None \<and> \<not> is_allocateASync c)"
proof (cases c)
  case (Allocate w h)
  with assms show ?thesis
    by (auto simp: TM_allocate_def split: option.splits sum.splits dest!: TM__allocate_frame)
next
  case (AllocateNode w h)
  with assms show ?thesis
    by (auto simp: TM_allocateNode_def new_promise_def
             split: option.splits sum.splits dest!: TM__allocate_frame)
next
  case (AllocateASync w h)
  with assms TM_allocateASync_frame(2) [of m w h] show ?thesis
    by (auto simp: TM_allocateASync_frame(1))
next
  case SolveASync
  with assms show ?thesis
    by (auto simp: TM_solveASync_def split: option.splits dest!: forEach_entry_frame)
next
  case (Release node)
  with assms show ?thesis
    by (auto simp: TM_release_def Node_release_def store_node_frame
             split: option.splits sum.splits)
next
  case (GetTexture ref)
  with assms show ?thesis
    by (auto simp: store_node_frame split: option.splits)
qed

lemma run_queue:
  "run cs m = Some m' \<Longrightarrow>
     tm_size m' = tm_size m
   \<and> (queue m' = None \<longleftrightarrow> queue m = None \<and> (\<forall>c \<in> set cs. \<not> is_allocateASync c))"
proof (induction cs arbitrary: m)
  case Nil
  then show ?case by simp
next
  case (Cons c cs)
  from Cons.prems obtain m1 where e: "exec c m = Some m1" and r: "run cs m1 = Some m'"
    by (auto split: option.splits)
  from exec_queue [OF e] Cons.IH [OF r] show ?case by auto
qed

lemma solveASync_throws_when:
  "(\<exists>e. TM_solveASync m = Some (Inl e)) \<longleftrightarrow> queue m = None"
  "TM_solveASync m = Some (Inl e) \<Longrightarrow> e = QueueNotSetUp"
  by (auto simp: TM_solveASync_def split: option.splits)

text \<open>
  C4, as stated, fails: on a manager of size 1024, \<open>allocateASync(2000, 10)\<close> returns a
  rejected promise and queues nothing, and yet \<open>solveASync()\<close> after it does not throw.
\<close>

theorem rejected_request_sets_up_queue:
  "run [AllocateASync (Num 2000) (Num 10)] (new_TextureManager (Num 1024)) =
     Some \<lparr>tm_size = 1024, knapsacks = [], queue = Some [], uuid_gen = 0,
           promises = [Rejected (WidthTooLarge (Num 2000))], settled = [0]\<rparr>
   \<and> \<not> queues_request 1024 (AllocateASync (Num 2000) (Num 10))
   \<and> TM_solveASync \<lparr>tm_size = 1024, knapsacks = [], queue = Some [], uuid_gen = 0,
           promises = [Rejected (WidthTooLarge (Num 2000))], settled = [0]\<rparr> =
     Some (Inr ([], \<lparr>tm_size = 1024, knapsacks = [], queue = Some [], uuid_gen = 0,
           promises = [Rejected (WidthTooLarge (Num 2000))], settled = [0]\<rparr>))"
  by (simp add: new_TextureManager_def valid_sizes_def TM_allocateASync_def TM__validateSize_def
        new_promise_def TM_solveASync_def)

text \<open>
  C4, amended. After any calls on a new manager, \<open>solveASync()\<close> throws, and then the error
  that the queue has not been set up, exactly when \<open>allocateASync\<close> was never called; whether
  the sizes of that call passed the check does not matter. So it does not throw when a
  request was queued.
\<close>

theorem solveASync_raises_iff_never_called:
  assumes "run cs (new_TextureManager s) = Some m"
  shows "(TM_solveASync m = Some (Inl QueueNotSetUp) \<longleftrightarrow> (\<forall>c \<in> set cs. \<not> is_allocateASync c))
       \<and> (\<forall>e. TM_solveASync m = Some (Inl e) \<longrightarrow> e = QueueNotSetUp)
       \<and> ((\<exists>c \<in> set cs. queues_request (tm_size m) c) \<longrightarrow> (\<forall>e. TM_solveASync m \<noteq> Some (Inl e)))"
proof -
  have q: "queue m = None \<longleftrightarrow> (\<forall>c \<in> set cs. \<not> is_allocateASync c)"
    using run_queue [OF assms] by (simp add: new_TextureManager_def)
  have i: "\<And>c. queues_request (tm_size m) c \<Longrightarrow> is_allocateASync c"
    by (case_tac c) simp_all
  from q i solveASync_throws_when [of m] show ?thesis
    by metis
qed

theorem solveASync_raises_iff_never_called_witness:
  "run [AllocateASync (Num 50) (Num 50), Allocate (Num 10) (Num 10)] (new_TextureManager (Num 128)) \<noteq> None
   \<and> is_allocateASync (AllocateASync (Num 50) (Num 50))
   \<and> TM_solveASync (the (run [AllocateASync (Num 50) (Num 50), Allocate (Num 10) (Num 10)]
         (new_TextureManager (Num 128)))) \<noteq> Some (Inl QueueNotSetUp)"
proof -
  obtain m where r: "run [AllocateASync (Num 50) (Num 50), Allocate (Num 10) (Num 10)]
      (new_TextureManager (Num 128)) = Some m"
    by (simp add: new_TextureManager_def valid_sizes_def TM_allocateASync_def TM__validateSize_def
          new_promise_def TM_allocate_def TM__allocate_def TM__addKnapsack_def
          Knapsack_allocateNode_def new_Knapsack_def eval_allocate)
  show ?thesis
    using r solveASync_raises_iff_never_called [OF r] by simp
qed

lemma TM__allocate_int_total:
  "\<exists>node m'. TM__allocate m (Num w) (Num h) = Some (node, m')"
proof -
  from forEach_knapsack_int [of w h 0 "knapsacks m" "uuid_gen m"] obtain node ks g where
    f: "forEach_knapsack (Num w) (Num h) 0 (knapsacks m) None (uuid_gen m) = Some (node, ks, g)"
    by blast
  from Knapsack_allocateNode_int [of w h "new_Knapsack (tm_size m)" g] obtain res k' g' where
    "Knapsack_allocateNode (Num w) (Num h) (new_Knapsack (tm_size m)) g = Some (res, k', g')"
    by blast
  with f show ?thesis
    by (simp add: TM__allocate_def TM__addKnapsack_def Let_def)
qed

lemma is_int_Num: "is_int x \<Longrightarrow> \<exists>a. x = Num a"
  by (cases x) simp_all

lemma settle_pending:
  assumes "p < length (promises m)" "promises m ! p = Pending"
  shows "promises (settle p st m) = (promises m)[p := st]"
    and "settled (settle p st m) = settled m @ [p]"
  using assms by (simp_all add: settle_def)

lemma forEach_entry_chain:
  assumes "distinct (map promise q)"
    and "\<forall>e \<in> set q. promise e < length (promises m) \<and> promises m ! promise e = Pending
            \<and> is_int (width e) \<and> is_int (height e)"
  shows "\<exists>ss nodes. length ss = Suc (length q) \<and> length nodes = length q \<and> ss ! 0 = m
          \<and> forEach_entry q m ps = Some (ss ! length q, ps @ map promise q)
          \<and> (\<forall>k < length q. \<exists>a.
                TM__allocate (ss ! k) (width (q ! k)) (height (q ! k)) = Some (nodes ! k, a)
              \<and> ss ! Suc k = settle (promise (q ! k)) (Resolved (nodes ! k)) a
              \<and> knapsacks (ss ! Suc k) = knapsacks a \<and> uuid_gen (ss ! Suc k) = uuid_gen a)
          \<and> settled (ss ! length q) = settled m @ map promise q
          \<and> length (promises (ss ! length q)) = length (promises m)
          \<and> (\<forall>i. i \<notin> promise ` set q \<longrightarrow> promises (ss ! length q) ! i = promises m ! i)
          \<and> (\<forall>k < length q. promises (ss ! length q) ! promise (q ! k) = Resolved (nodes ! k))"
  using assms
proof (induction q arbitrary: m ps)
  case Nil
  show ?case by (intro exI [of _ "[m]"] exI [of _ "[]"]) simp
next
  case (Cons e q)
  from Cons.prems have "is_int (width e)" "is_int (height e)" by simp_all
  then obtain w h where wh: "width e = Num w" "height e = Num h"
    by (metis is_int_Num)
  from TM__allocate_int_total [of m w h] obtain node a where
    a: "TM__allocate m (width e) (height e) = Some (node, a)"
    by (auto simp: wh)
  from TM__allocate_frame [OF a] have fr: "promises a = promises m" "settled a = settled m"
    by simp_all
  let ?m2 = "settle (promise e) (Resolved node) a"
  from Cons.prems have pe: "promise e < length (promises a)" "promises a ! promise e = Pending"
    by (simp_all add: fr)
  have p2: "promises ?m2 = (promises m)[promise e := Resolved node]"
    and s2: "settled ?m2 = settled m @ [promise e]"
    using settle_pending [OF pe] by (simp_all add: fr)
  have d: "distinct (map promise q)" using Cons.prems by simp
  have ne: "promise e \<notin> promise ` set q" using Cons.prems by simp
  have pre: "\<forall>x \<in> set q. promise x < length (promises ?m2) \<and> promises ?m2 ! promise x = Pending
            \<and> is_int (width x) \<and> is_int (height x)"
  proof
    fix x assume x: "x \<in> set q"
    with ne have "promise x \<noteq> promise e" by (metis imageI)
    with x Cons.prems show "promise x < length (promises ?m2) \<and> promises ?m2 ! promise x = Pending
            \<and> is_int (width x) \<and> is_int (height x)"
      by (simp add: p2)
  qed
  from Cons.IH [OF d pre, of "ps @ [promise e]"] obtain ss nodes where
    ls: "length ss = Suc (length q)" and ln: "length nodes = length q" and s0: "ss ! 0 = ?m2"
    and f: "forEach_entry q ?m2 (ps @ [promise e])
              = Some (ss ! length q, (ps @ [promise e]) @ map promise q)"
    and ch: "\<forall>k < length q. \<exists>a.
                TM__allocate (ss ! k) (width (q ! k)) (height (q ! k)) = Some (nodes ! k, a)
              \<and> ss ! Suc k = settle (promise (q ! k)) (Resolved (nodes ! k)) a
              \<and> knapsacks (ss ! Suc k) = knapsacks a \<and> uuid_gen (ss ! Suc k) = uuid_gen a"
    and st: "settled (ss ! length q) = settled ?m2 @ map promise q"
    and lp: "length (promises (ss ! length q)) = length (promises ?m2)"
    and un: "\<forall>i. i \<notin> promise ` set q \<longrightarrow> promises (ss ! length q) ! i = promises ?m2 ! i"
    and rs: "\<forall>k < length q. promises (ss ! length q) ! promise (q ! k) = Resolved (nodes ! k)"
    by blast
  let ?ss = "m # ss" and ?nodes = "node # nodes"
  have r0: "promises (ss ! length q) ! promise e = Resolved node"
    using un ne Cons.prems by (simp add: p2)
  have chain: "\<forall>k < length (e # q). \<exists>a.
                TM__allocate (?ss ! k) (width ((e # q) ! k)) (height ((e # q) ! k))
                  = Some (?nodes ! k, a)
              \<and> ?ss ! Suc k = settle (promise ((e # q) ! k)) (Resolved (?nodes ! k)) a
              \<and> knapsacks (?ss ! Suc k) = knapsacks a \<and> uuid_gen (?ss ! Suc k) = uuid_gen a"
  proof (intro allI impI)
    fix k assume k: "k < length (e # q)"
    show "\<exists>a. TM__allocate (?ss ! k) (width ((e # q) ! k)) (height ((e # q) ! k))
                  = Some (?nodes ! k, a)
              \<and> ?ss ! Suc k = settle (promise ((e # q) ! k)) (Resolved (?nodes ! k)) a
              \<and> knapsacks (?ss ! Suc k) = knapsacks a \<and> uuid_gen (?ss ! Suc k) = uuid_gen a"
    proof (cases k)
      case 0
      with a s0 show ?thesis by (simp add: settle_frame)
    next
      case (Suc j)
      with k ch show ?thesis by simp
    qed
  qed
  have res: "\<forall>k < length (e # q).
      promises (?ss ! length (e # q)) ! promise ((e # q) ! k) = Resolved (?nodes ! k)"
  proof (intro allI impI)
    fix k assume k: "k < length (e # q)"
    show "promises (?ss ! length (e # q)) ! promise ((e # q) ! k) = Resolved (?nodes ! k)"
    proof (cases k)
      case 0
      with r0 show ?thesis by simp
    next
      case (Suc j)
      with k rs show ?thesis by simp
    qed
  qed
  have unchanged: "\<forall>i. i \<notin> promise ` set (e # q) \<longrightarrow>
      promises (?ss ! length (e # q)) ! i = promises m ! i"
    using un by (simp add: p2)
  show ?case
    apply (intro exI [of _ ?ss] exI [of _ ?nodes])
    using ls ln f st lp a chain res unchanged
    apply (simp add: s2 p2 del: nth_Cons_Suc)
    done
qed

lemma queue_pending_new_promise:
  assumes "queue_pending m"
  shows "queue_pending (snd (new_promise st m))"
  using assms
  by (auto simp: queue_pending_def new_promise_def nth_append split: option.splits)

lemma queue_pending_frame:
  assumes "queue_pending m" and "queue m' = queue m" and "promises m' = promises m"
  shows "queue_pending m'"
  using assms by (auto simp: queue_pending_def split: option.splits)

lemma queue_pending_allocateASync:
  assumes "queue_pending m"
  shows "queue_pending (snd (TM_allocateASync m w h))"
  using assms
  by (auto simp: queue_pending_def TM_allocateASync_def new_promise_def Let_def nth_append
           split: option.splits sum.splits)

lemma exec_queue_pending:
  assumes "exec c m = Some m'" and "queue_pending m"
  shows "queue_pending m'"
proof (cases c)
  case (Allocate w h)
  with assms show ?thesis
    by (auto simp: TM_allocate_def split: option.splits sum.splits
             dest!: TM__allocate_frame intro: queue_pending_frame)
next
  case (AllocateNode w h)
  show ?thesis
  proof (cases "TM__validateSize m w h")
    case (Inl e)
    with AllocateNode assms show ?thesis
      by (auto simp: TM_allocateNode_def intro: queue_pending_new_promise)
  next
    case (Inr u)
    with AllocateNode assms obtain node m1 where
      a: "TM__allocate m w h = Some (node, m1)" and m': "m' = snd (new_promise (Resolved node) m1)"
      by (auto simp: TM_allocateNode_def split: option.splits)
    from TM__allocate_frame [OF a] assms(2) have "queue_pending m1"
      by (auto intro: queue_pending_frame)
    with m' show ?thesis by (simp add: queue_pending_new_promise)
  qed
next
  case (AllocateASync w h)
  with assms show ?thesis by (auto simp: queue_pending_allocateASync)
next
  case SolveASync
  with assms show ?thesis
    by (auto simp: TM_solveASync_def queue_pending_def split: option.splits)
next
  case (Release node)
  with assms show ?thesis
    by (auto simp: TM_release_def Node_release_def store_node_frame
             split: option.splits sum.splits intro: queue_pending_frame)
next
  case (GetTexture ref)
  with assms show ?thesis
    by (auto simp: store_node_frame split: option.splits intro: queue_pending_frame)
qed

lemma run_queue_pending:
  "run cs m = Some m' \<Longrightarrow> queue_pending m \<Longrightarrow> queue_pending m'"
proof (induction cs arbitrary: m)
  case Nil
  then show ?case by simp
next
  case (Cons c cs)
  then show ?case by (auto split: option.splits dest: exec_queue_pending)
qed

text \<open>
  C5. On a manager reached from a new one by any calls, whose queue holds requests of
  integer sizes, \<open>solveASync()\<close> returns and gives \<open>Promise.all\<close> the promises of the queue
  in the order of the queue. There are managers \<open>ss ! 0\<close>, ..., one more than entries,
  the first the manager of the call: \<open>_allocate\<close> for the sizes of the entry number \<open>k\<close> runs
  on \<open>ss ! k\<close>, and \<open>ss ! Suc k\<close> is the manager it returns with the promise of that entry
  resolved with the node it returns. The manager after the call is the last of them with
  the queue empty, so its knapsacks are those the last \<open>_allocate\<close> left; the promises were
  settled in the order of the queue.
\<close>

theorem solveASync_resolves_in_order:
  assumes "run cs (new_TextureManager s) = Some m" and "queue m = Some q"
    and "\<forall>e \<in> set q. is_int (width e) \<and> is_int (height e)"
  shows "\<exists>m' ss nodes.
            TM_solveASync m = Some (Inr (map promise q, m'))
          \<and> length ss = Suc (length q) \<and> length nodes = length q
          \<and> ss ! 0 = m
          \<and> (\<forall>k < length q. \<exists>a.
                TM__allocate (ss ! k) (width (q ! k)) (height (q ! k)) = Some (nodes ! k, a)
              \<and> ss ! Suc k = settle (promise (q ! k)) (Resolved (nodes ! k)) a
              \<and> knapsacks (ss ! Suc k) = knapsacks a \<and> uuid_gen (ss ! Suc k) = uuid_gen a)
          \<and> m' = (ss ! length q)\<lparr>queue := Some []\<rparr>
          \<and> knapsacks m' = knapsacks (ss ! length q)
          \<and> queue m' = Some []
          \<and> settled m' = settled m @ map promise q
          \<and> (\<forall>k < length q. promises m' ! promise (q ! k) = Resolved (nodes ! k))"
proof -
  have "queue_pending (new_TextureManager s)"
    by (simp add: queue_pending_def new_TextureManager_def)
  with assms(1) have "queue_pending m" by (rule run_queue_pending)
  with assms have d: "distinct (map promise q)"
    and p: "\<forall>e \<in> set q. promise e < length (promises m) \<and> promises m ! promise e = Pending
            \<and> is_int (width e) \<and> is_int (height e)"
    by (simp_all add: queue_pending_def)
  from forEach_entry_chain [OF d p, of "[]"] obtain ss nodes where
    "length ss = Suc (length q)" "length nodes = length q" "ss ! 0 = m"
    "forEach_entry q m [] = Some (ss ! length q, map promise q)"
    "\<forall>k < length q. \<exists>a.
                TM__allocate (ss ! k) (width (q ! k)) (height (q ! k)) = Some (nodes ! k, a)
              \<and> ss ! Suc k = settle (promise (q ! k)) (Resolved (nodes ! k)) a
              \<and> knapsacks (ss ! Suc k) = knapsacks a \<and> uuid_gen (ss ! Suc k) = uuid_gen a"
    "settled (ss ! length q) = settled m @ map promise q"
    "\<forall>k < length q. promises (ss ! length q) ! promise (q ! k) = Resolved (nodes ! k)"
    by auto
  with assms(2) show ?thesis
    by (intro exI [of _ "(ss ! length q)\<lparr>queue := Some []\<rparr>"] exI [of _ ss] exI [of _ nodes])
       (simp add: TM_solveASync_def)
qed

theorem solveASync_resolves_in_order_witness:
  "run [AllocateASync (Num 50) (Num 50), AllocateASync (Num 10) (Num 10),
        AllocateASync (Num 100) (Num 100)] (new_TextureManager (Num 1024)) = Some three_queued
   \<and> list_all (\<lambda>e. is_int (width e) \<and> is_int (height e)) (the (queue three_queued))
   \<and> TM_solveASync three_queued = Some (Inr ([0, 1, 2], three_solved))
   \<and> promises three_solved =
       [Resolved (Some (0, [LeftChild, LeftChild])),
        Resolved (Some (0, [LeftChild, RightChild, LeftChild, LeftChild])),
        Resolved (Some (0, [RightChild, LeftChild, LeftChild]))]
   \<and> settled three_solved = [0, 1, 2]
   \<and> length (knapsacks three_solved) = 1"
proof -
  have q: "queue three_queued =
      Some [\<lparr>width = Num 50, height = Num 50, promise = 0\<rparr>,
            \<lparr>width = Num 10, height = Num 10, promise = 1\<rparr>,
            \<lparr>width = Num 100, height = Num 100, promise = 2\<rparr>]"
    by (simp add: three_queued_def)
  have i: "\<forall>e \<in> set [\<lparr>width = Num 50, height = Num 50, promise = 0\<rparr>,
            \<lparr>width = Num 10, height = Num 10, promise = 1\<rparr>,
            \<lparr>width = Num 100, height = Num 100, promise = 2\<rparr>]. is_int (width e) \<and> is_int (height e)"
    by simp
  have r: "run [AllocateASync (Num 50) (Num 50), AllocateASync (Num 10) (Num 10),
        AllocateASync (Num 100) (Num 100)] (new_TextureManager (Num 1024)) = Some three_queued"
    by (simp add: eval_manager three_queued_def)
  have v: "TM_solveASync three_queued = Some (Inr ([0, 1, 2], three_solved))"
    by (simp add: three_queued_def three_solved_def TM_solveASync_def TM__allocate_def
          TM__addKnapsack_def Knapsack_allocateNode_def new_Knapsack_def settle_def
          eval_allocate Let_def)
  show ?thesis
    using r v solveASync_resolves_in_order [OF r q i]
    by (simp add: q three_solved_def)
qed

text \<open>
  A size that is \<open>NaN\<close> passes the check of the manager, and the allocation then never
  returns: in a free leaf that is high enough the split goes on without end. This is why
  the statement above is about integer sizes.
\<close>

lemma allocate_NaN_result:
  "allocate w h n g = Some y \<Longrightarrow>
     \<not> (w = NaN \<and> (\<exists>r t. n = Leaf r None t \<and> \<not> js_gt h (Num (Rect_height r))))"
proof (erule allocate.raw_induct [rotated 1], goal_cases)
  case (1 alloc w h n g y)
  show ?case
  proof
    assume "w = NaN \<and> (\<exists>r t. n = Leaf r None t \<and> \<not> js_gt h (Num (Rect_height r)))"
    then obtain r t where n: "w = NaN" "n = Leaf r None t" "\<not> js_gt h (Num (Rect_height r))"
      by blast
    let ?l = "fst (split_rects NaN h r)"
    from 1(2) n obtain y' where "alloc NaN h (Leaf ?l None None) g = Some y'"
      by (auto simp: bind_eq_Some_conv)
    from 1(1) [OF this] have "js_gt h (Num (Rect_height ?l))" by simp
    then show False
      by (cases h) (simp_all add: split_rects_def new_KnapsackRectangle_def Rect_height_def)
  qed
qed

lemma allocate_NaN_never_returns:
  assumes "\<not> js_gt h (Num (Rect_height r))"
  shows "allocate NaN h (Leaf r None t) g = None"
  using allocate_NaN_result [of NaN h "Leaf r None t" g] assms
  by (cases "allocate NaN h (Leaf r None t) g") auto

lemma solveASync_NaN_never_returns:
  "TM_solveASync (snd (TM_allocateASync (new_TextureManager (Num 1024)) NaN (Num 5))) = None"
  by (simp add: eval_manager TM_solveASync_def Let_def allocate_NaN_never_returns
        new_KnapsackNode_def new_KnapsackRectangle_def Rect_height_def)

section \<open>Nodes with children\<close>

lemma split_rects_partition:
  assumes "0 \<le> w" "0 \<le> h" "w \<le> Rect_width r" "h \<le> Rect_height r"
  shows "pixels (fst (split_rects (Num w) (Num h) r)) \<union> pixels (snd (split_rects (Num w) (Num h) r))
           = pixels r"
    and "pixels (fst (split_rects (Num w) (Num h) r)) \<inter> pixels (snd (split_rects (Num w) (Num h) r))
           = {}"
  using assms
  by (auto simp: split_rects_int pixels_def Rect_width_def Rect_height_def)

lemma extends_refl [simp]: "extends n n"
  by (induction n) simp_all

lemma extends_rectangle: "extends n n' \<Longrightarrow> rectangle n' = rectangle n"
  by (cases n; cases n') simp_all

lemma extends_trans: "extends a b \<Longrightarrow> extends b c \<Longrightarrow> extends a c"
proof (induction a arbitrary: b c)
  case (Leaf r i t)
  then show ?case by (simp add: extends_rectangle)
next
  case (Branch r i t lc rc)
  then show ?case by (cases b; cases c) auto
qed

lemma update_at_preserves:
  assumes "node_at p n = Some x" and "rectangle (f x) = rectangle x" and "extends x (f x)"
    and "branches_ok x \<longrightarrow> branches_ok (f x)"
  shows "rectangle (update_at p f n) = rectangle n
       \<and> extends n (update_at p f n)
       \<and> (branches_ok n \<longrightarrow> branches_ok (update_at p f n))"
  using assms
  by (induction p f n rule: update_at.induct) auto

lemma claim_preserves:
  "rectangle (fst (claim (Leaf r i t) g)) = rectangle (Leaf r i t)"
  "extends (Leaf r i t) (fst (claim (Leaf r i t) g))"
  "branches_ok (fst (claim (Leaf r i t) g))"
  by (simp_all add: claim_def)

lemma allocate_int_preserves:
  assumes "0 \<le> w" and "0 \<le> h"
    and "allocate (Num w) (Num h) n g = Some (res, n', g')"
  shows "rectangle n' = rectangle n \<and> extends n n' \<and> (branches_ok n \<longrightarrow> branches_ok n')"
proof -
  let ?P = "\<lambda>(n::KnapsackNode) (g::nat) (res :: path option \<times> KnapsackNode \<times> nat).
      rectangle (fst (snd res)) = rectangle n \<and> extends n (fst (snd res))
      \<and> (branches_ok n \<longrightarrow> branches_ok (fst (snd res)))"
  have "\<exists>res. allocate (Num w) (Num h) n g = Some res \<and> ?P n g res"
  proof (rule allocate_int_rule)
    fix r t and g :: nat and res :: "path option" and lc' and g' :: nat
    assume "w \<le> Rect_width r" "h \<le> Rect_height r"
      and "?P (Leaf (fst (split_rects (Num w) (Num h) r)) None None) g (res, lc', g')"
    then show "?P (Leaf r None t) g (map_option ((#) LeftChild) res,
        Branch r None t lc' (Leaf (snd (split_rects (Num w) (Num h) r)) None None), g')"
      using split_rects_partition [OF assms(1,2), of r] by simp
  next
    fix r i t lc rc and g :: nat and p lc' and g' :: nat
    assume a: "allocate (Num w) (Num h) lc g = Some (Some p, lc', g')"
      and ih: "?P lc g (Some p, lc', g')"
    from allocate_int_exact [OF a] obtain r0 i0 t0 where
      l: "node_at p lc' = Some (Leaf r0 (Some i0) t0)" by blast
    from update_at_preserves [OF l, of "\<lambda>n. fst (claim n g')"]
    have "rectangle (fst (claim_at p lc' g')) = rectangle lc'
       \<and> extends lc' (fst (claim_at p lc' g'))
       \<and> (branches_ok lc' \<longrightarrow> branches_ok (fst (claim_at p lc' g')))"
      by (simp add: claim_at_def claim_preserves)
    with ih show "?P (Branch r i t lc rc) g
        (Some (LeftChild # p), Branch r i t (fst (claim_at p lc' g')) rc, Suc g')"
      by (auto intro: extends_trans)
  qed simp_all
  with assms(3) show ?thesis by simp
qed

lemma knapsack_step_refl [simp]: "knapsack_step k k"
  by (simp add: knapsack_step_def)

lemma knapsack_step_trans: "knapsack_step a b \<Longrightarrow> knapsack_step b c \<Longrightarrow> knapsack_step a c"
  by (auto simp: knapsack_step_def intro: extends_trans)

lemma Knapsack_allocateNode_preserves:
  assumes "0 \<le> w" and "0 \<le> h"
  shows "\<exists>res k' g'. Knapsack_allocateNode (Num w) (Num h) k g = Some (res, k', g')
           \<and> knapsack_step k k'"
proof -
  from Knapsack_allocateNode_int [of w h k g] obtain res root' g' where
    a: "allocate (Num w) (Num h) (rootNode k) g = Some (res, root', g')"
    and b: "Knapsack_allocateNode (Num w) (Num h) k g = Some (res, k\<lparr>rootNode := root'\<rparr>, g')"
    by blast
  from allocate_int_preserves [OF assms a] b show ?thesis
    by (simp add: knapsack_step_def)
qed

lemma forEach_knapsack_preserves:
  assumes "0 \<le> w" and "0 \<le> h"
  shows "\<exists>node' ks' g'. forEach_knapsack (Num w) (Num h) i ks node g = Some (node', ks', g')
           \<and> list_all2 knapsack_step ks ks'"
proof (induction ks arbitrary: i node g)
  case Nil
  show ?case by simp
next
  case (Cons k ks)
  show ?case
  proof (cases node)
    case None
    from Knapsack_allocateNode_preserves [OF assms, of k g] obtain res k' g1 where
      a: "Knapsack_allocateNode (Num w) (Num h) k g = Some (res, k', g1)"
      and s: "knapsack_step k k'" by blast
    from Cons.IH [of "Suc i" "map_option (Pair i) res" g1] obtain node' ks' g' where
      "forEach_knapsack (Num w) (Num h) (Suc i) ks (map_option (Pair i) res) g1 = Some (node', ks', g')"
      "list_all2 knapsack_step ks ks'" by blast
    with None a s show ?thesis by simp
  next
    case (Some x)
    then show ?thesis
      by (simp add: forEach_knapsack_found list_all2_refl del: forEach_knapsack.simps)
  qed
qed

lemma manager_step_refl: "knapsacks m' = knapsacks m \<Longrightarrow> manager_step m m'"
  by (auto simp: manager_step_def)

lemma manager_step_trans:
  assumes "manager_step a b" and "manager_step b c"
  shows "manager_step a c"
  unfolding manager_step_def
proof (intro conjI allI impI)
  show "length (knapsacks a) \<le> length (knapsacks c)"
    using assms by (simp add: manager_step_def)
next
  fix i assume "i < length (knapsacks a)"
  with assms show "knapsack_step (knapsacks a ! i) (knapsacks c ! i)"
    by (auto simp: manager_step_def intro: knapsack_step_trans)
next
  fix i assume i: "length (knapsacks a) \<le> i \<and> i < length (knapsacks c)"
  show "branches_ok (rootNode (knapsacks c ! i))"
  proof (cases "i < length (knapsacks b)")
    case True
    with assms i have "branches_ok (rootNode (knapsacks b ! i))"
      and "knapsack_step (knapsacks b ! i) (knapsacks c ! i)"
      by (simp_all add: manager_step_def)
    then show ?thesis by (simp add: knapsack_step_def)
  next
    case False
    with assms i show ?thesis by (simp add: manager_step_def)
  qed
qed

lemma manager_step_ok: "manager_step m m' \<Longrightarrow> manager_ok m \<Longrightarrow> manager_ok m'"
  unfolding manager_step_def manager_ok_def knapsack_step_def
  by (metis not_less)

lemma TM__allocate_preserves:
  assumes "0 \<le> w" and "0 \<le> h"
  shows "\<exists>node m'. TM__allocate m (Num w) (Num h) = Some (node, m') \<and> manager_step m m'"
proof -
  from forEach_knapsack_preserves [OF assms, of 0 "knapsacks m" None "uuid_gen m"]
  obtain node ks g where
    f: "forEach_knapsack (Num w) (Num h) 0 (knapsacks m) None (uuid_gen m) = Some (node, ks, g)"
    and s: "list_all2 knapsack_step (knapsacks m) ks" by blast
  from s have l: "length ks = length (knapsacks m)"
    and n: "\<And>i. i < length (knapsacks m) \<Longrightarrow> knapsack_step (knapsacks m ! i) (ks ! i)"
    by (auto dest: list_all2_lengthD list_all2_nthD)
  from Knapsack_allocateNode_preserves [OF assms, of "new_Knapsack (tm_size m)" g]
  obtain res k' g' where
    a: "Knapsack_allocateNode (Num w) (Num h) (new_Knapsack (tm_size m)) g = Some (res, k', g')"
    and k: "knapsack_step (new_Knapsack (tm_size m)) k'" by blast
  from k have ok: "branches_ok (rootNode k')"
    by (simp add: knapsack_step_def new_Knapsack_def new_KnapsackNode_def)
  show ?thesis
  proof (cases node)
    case None
    with f a l n ok show ?thesis
      by (auto simp: TM__allocate_def TM__addKnapsack_def Let_def manager_step_def nth_append)
  next
    case (Some x)
    with f l n show ?thesis
      by (auto simp: TM__allocate_def Let_def manager_step_def)
  qed
qed

lemma positive_Num: "positive x \<Longrightarrow> \<exists>a. x = Num a \<and> 0 \<le> a"
  by (cases x) simp_all

lemma forEach_entry_preserves:
  assumes "\<forall>e \<in> set q. positive (width e) \<and> positive (height e)"
  shows "\<exists>m' ps'. forEach_entry q m ps = Some (m', ps') \<and> manager_step m m'"
  using assms
proof (induction q arbitrary: m ps)
  case Nil
  show ?case by (simp add: manager_step_refl)
next
  case (Cons e q)
  from Cons.prems have "positive (width e)" "positive (height e)" by simp_all
  then obtain w h where wh: "width e = Num w" "0 \<le> w" "height e = Num h" "0 \<le> h"
    by (metis positive_Num)
  from TM__allocate_preserves [OF wh(2,4), of m] obtain node m1 where
    a: "TM__allocate m (width e) (height e) = Some (node, m1)" and s1: "manager_step m m1"
    by (auto simp: wh)
  let ?m2 = "settle (promise e) (Resolved node) m1"
  have s2: "manager_step m1 ?m2" by (simp add: manager_step_refl settle_frame)
  from Cons.IH [of ?m2 "ps @ [promise e]"] Cons.prems obtain m' ps' where
    f: "forEach_entry q ?m2 (ps @ [promise e]) = Some (m', ps')" and s3: "manager_step ?m2 m'"
    by auto
  from a f s1 s2 s3 show ?case
    by (auto intro: manager_step_trans)
qed

lemma store_node_step:
  assumes "lookup_node m ref = Some x" and "rectangle x' = rectangle x" and "extends x x'"
    and "branches_ok x \<longrightarrow> branches_ok x'"
  shows "manager_step m (store_node m ref x')"
proof -
  obtain i p where ref: "ref = (i, p)" by (cases ref)
  from assms(1) ref have i: "i < length (knapsacks m)"
    and n: "node_at p (rootNode (knapsacks m ! i)) = Some x"
    by (auto simp: lookup_node_def split: if_splits)
  from update_at_preserves [OF n, of "\<lambda>_. x'"] assms(2-4)
  have u: "knapsack_step (knapsacks m ! i)
             ((knapsacks m ! i)\<lparr>rootNode := update_at p (\<lambda>_. x') (rootNode (knapsacks m ! i))\<rparr>)"
    by (simp add: knapsack_step_def)
  show ?thesis
    unfolding manager_step_def
    using u i by (auto simp: store_node_def ref nth_list_update)
qed

lemma release_step:
  assumes "release x = Inr (x', d)"
  shows "rectangle x' = rectangle x \<and> extends x x' \<and> (branches_ok x \<longrightarrow> branches_ok x')"
  using assms by (cases x) (auto simp: release_def)

lemma get_texture_step:
  "rectangle (snd (get_texture s x)) = rectangle x
   \<and> extends x (snd (get_texture s x))
   \<and> (branches_ok x \<longrightarrow> branches_ok (snd (get_texture s x)))"
  by (cases x) (auto simp: get_texture_def Let_def split: option.splits)

lemma exec_preserves:
  assumes "positive_sizes c" and "queue_positive m"
  shows "\<exists>m'. exec c m = Some m' \<and> manager_step m m' \<and> queue_positive m'"
proof (cases c)
  case (Allocate w h)
  with assms(1) obtain a b where wh: "w = Num a" "0 \<le> a" "h = Num b" "0 \<le> b"
    by (metis positive_Num positive_sizes.simps(1))
  from TM__allocate_preserves [OF wh(2,4), of m] obtain node m' where
    a: "TM__allocate m w h = Some (node, m')" and s: "manager_step m m'"
    by (auto simp: wh)
  from TM__allocate_frame [OF a] assms(2) have "queue_positive m'"
    by (simp add: queue_positive_def)
  with a s assms(2) Allocate show ?thesis
    by (auto simp: TM_allocate_def manager_step_refl split: sum.splits)
next
  case (AllocateNode w h)
  with assms(1) obtain a b where wh: "w = Num a" "0 \<le> a" "h = Num b" "0 \<le> b"
    by (metis positive_Num positive_sizes.simps(2))
  from TM__allocate_preserves [OF wh(2,4), of m] obtain node m' where
    a: "TM__allocate m w h = Some (node, m')" and s: "manager_step m m'"
    by (auto simp: wh)
  from TM__allocate_frame [OF a] assms(2) have q: "queue_positive m'"
    by (simp add: queue_positive_def)
  have n: "\<And>st x. manager_step x (snd (new_promise st x))"
    by (simp add: manager_step_refl new_promise_frame)
  have nq: "\<And>st x. queue_positive x \<Longrightarrow> queue_positive (snd (new_promise st x))"
    by (simp add: queue_positive_def new_promise_frame)
  show ?thesis
  proof (cases "TM__validateSize m w h")
    case (Inl e)
    with AllocateNode have "exec c m = Some (snd (new_promise (Rejected e) m))"
      by (simp add: TM_allocateNode_def)
    with n nq assms(2) show ?thesis by simp
  next
    case (Inr u)
    with AllocateNode a have "exec c m = Some (snd (new_promise (Resolved node) m'))"
      by (simp add: TM_allocateNode_def)
    moreover from s n have "manager_step m (snd (new_promise (Resolved node) m'))"
      by (rule manager_step_trans)
    ultimately show ?thesis using nq [OF q] by simp
  qed
next
  case (AllocateASync w h)
  with assms show ?thesis
    by (auto simp: TM_allocateASync_def new_promise_def Let_def queue_positive_def
          manager_step_refl split: sum.splits option.splits)
next
  case SolveASync
  show ?thesis
  proof (cases "queue m")
    case None
    with SolveASync assms(2) show ?thesis
      by (simp add: TM_solveASync_def manager_step_refl)
  next
    case (Some q)
    with assms(2) have "\<forall>e \<in> set q. positive (width e) \<and> positive (height e)"
      by (simp add: queue_positive_def)
    from forEach_entry_preserves [OF this, of m "[]"] obtain m' ps' where
      f: "forEach_entry q m [] = Some (m', ps')" and s: "manager_step m m'" by blast
    have "manager_step m' (m'\<lparr>queue := Some []\<rparr>)" by (simp add: manager_step_refl)
    with s have "manager_step m (m'\<lparr>queue := Some []\<rparr>)" by (rule manager_step_trans)
    with SolveASync Some f show ?thesis
      by (simp add: TM_solveASync_def queue_positive_def)
  qed
next
  case (Release node)
  show ?thesis
  proof (cases "TM_release m node")
    case (Inl e)
    with Release assms(2) show ?thesis by (simp add: manager_step_refl)
  next
    case (Inr r)
    obtain m' d where r: "r = (m', d)" by (cases r)
    have "manager_step m m' \<and> queue m' = queue m"
    proof (cases node)
      case None
      with Inr r show ?thesis by (simp add: TM_release_def manager_step_refl)
    next
      case (Some ref)
      show ?thesis
      proof (cases "lookup_node m ref")
        case None
        with Inr r Some show ?thesis
          by (simp add: TM_release_def Node_release_def manager_step_refl)
      next
        case (Some x)
        with Inr r \<open>node = Some ref\<close> obtain x' where
          rel: "release x = Inr (x', d)" and m': "m' = store_node m ref x'"
          by (auto simp: TM_release_def Node_release_def split: sum.splits)
        from release_step [OF rel] store_node_step [OF Some, of x'] m' show ?thesis
          by (simp add: store_node_frame)
      qed
    qed
    with Release Inr r assms(2) show ?thesis by (simp add: queue_positive_def)
  qed
next
  case (GetTexture ref)
  show ?thesis
  proof (cases "lookup_node m ref")
    case None
    with GetTexture assms(2) show ?thesis by (simp add: manager_step_refl)
  next
    case (Some x)
    let ?x' = "snd (get_texture (textureSize (knapsacks m ! fst ref)) x)"
    from get_texture_step [of "textureSize (knapsacks m ! fst ref)" x]
      store_node_step [OF Some, of ?x']
    have "manager_step m (store_node m ref ?x')" by simp
    with GetTexture Some assms(2) show ?thesis
      by (simp add: queue_positive_def store_node_frame)
  qed
qed

lemma run_preserves:
  assumes "\<forall>c \<in> set cs. positive_sizes c" and "queue_positive m"
  shows "\<exists>m'. run cs m = Some m' \<and> manager_step m m' \<and> queue_positive m'"
  using assms
proof (induction cs arbitrary: m)
  case Nil
  then show ?case by (simp add: manager_step_refl)
next
  case (Cons c cs)
  from exec_preserves [of c m] Cons.prems obtain m1 where
    e: "exec c m = Some m1" and s1: "manager_step m m1" and q1: "queue_positive m1"
    by auto
  from Cons.IH [OF _ q1] Cons.prems obtain m' where
    "run cs m1 = Some m'" "manager_step m1 m'" "queue_positive m'" by auto
  with e s1 show ?case by (auto intro: manager_step_trans)
qed

lemma branches_ok_node_at:
  "branches_ok n \<Longrightarrow> node_at p n = Some x \<Longrightarrow> branches_ok x"
  by (induction p n rule: node_at.induct) auto

lemma extends_node_at:
  "extends n n' \<Longrightarrow> node_at p n = Some x \<Longrightarrow> \<exists>x'. node_at p n' = Some x' \<and> extends x x'"
proof (induction p n arbitrary: n' rule: node_at.induct)
  case (1 n)
  then show ?case by simp
next
  case (2 c p r i t)
  then show ?case by simp
next
  case (3 p r i t lc rc)
  then show ?case by (cases n') auto
next
  case (4 p r i t lc rc)
  then show ?case by (cases n') auto
qed

text \<open>
  C6. Take any calls with positive integer sizes on a new manager (allocations of the three
  kinds, \<open>solveASync\<close>, releases of any node, reads of \<open>texture\<close>), and any such calls after
  them. All of them return or throw. After the first calls, every node with children has
  no identifier, and the rectangles of its two children cover its rectangle with no gap and
  no overlap. After the later calls that node is still at its place, with the same
  rectangle and no identifier, and its children are at their places with the rectangles they had.
\<close>

theorem branch_nodes_partition_and_stay:
  assumes "\<forall>c \<in> set (cs1 @ cs2). positive_sizes c"
  shows "\<exists>m1 m2. run cs1 (new_TextureManager s) = Some m1 \<and> run cs2 m1 = Some m2
          \<and> (\<forall>i p r iid t lc rc.
                i < length (knapsacks m1)
                \<and> node_at p (rootNode (knapsacks m1 ! i)) = Some (Branch r iid t lc rc) \<longrightarrow>
                  iid = None
                \<and> pixels (rectangle lc) \<union> pixels (rectangle rc) = pixels r
                \<and> pixels (rectangle lc) \<inter> pixels (rectangle rc) = {}
                \<and> i < length (knapsacks m2)
                \<and> (\<exists>t' lc' rc'.
                      node_at p (rootNode (knapsacks m2 ! i)) = Some (Branch r None t' lc' rc')
                    \<and> rectangle lc' = rectangle lc \<and> rectangle rc' = rectangle rc))"
proof -
  let ?m0 = "new_TextureManager s"
  have q0: "queue_positive ?m0" by (simp add: queue_positive_def new_TextureManager_def)
  have ok0: "manager_ok ?m0" by (simp add: manager_ok_def new_TextureManager_def)
  from run_preserves [of cs1 ?m0] assms q0 obtain m1 where
    r1: "run cs1 ?m0 = Some m1" and s1: "manager_step ?m0 m1" and q1: "queue_positive m1"
    by auto
  from run_preserves [of cs2 m1] assms q1 obtain m2 where
    r2: "run cs2 m1 = Some m2" and s2: "manager_step m1 m2"
    by auto
  from manager_step_ok [OF s1 ok0] have ok1: "manager_ok m1" .
  from manager_step_ok [OF s2 ok1] have ok2: "manager_ok m2" .
  have "\<forall>i p r iid t lc rc.
                i < length (knapsacks m1)
                \<and> node_at p (rootNode (knapsacks m1 ! i)) = Some (Branch r iid t lc rc) \<longrightarrow>
                  iid = None
                \<and> pixels (rectangle lc) \<union> pixels (rectangle rc) = pixels r
                \<and> pixels (rectangle lc) \<inter> pixels (rectangle rc) = {}
                \<and> i < length (knapsacks m2)
                \<and> (\<exists>t' lc' rc'.
                      node_at p (rootNode (knapsacks m2 ! i)) = Some (Branch r None t' lc' rc')
                    \<and> rectangle lc' = rectangle lc \<and> rectangle rc' = rectangle rc)"
  proof (intro allI impI)
    fix i p r iid t lc rc
    assume a: "i < length (knapsacks m1)
                \<and> node_at p (rootNode (knapsacks m1 ! i)) = Some (Branch r iid t lc rc)"
    then have i: "i < length (knapsacks m1)"
      and n: "node_at p (rootNode (knapsacks m1 ! i)) = Some (Branch r iid t lc rc)" by simp_all
    from ok1 i have "branches_ok (rootNode (knapsacks m1 ! i))" by (simp add: manager_ok_def)
    from branches_ok_node_at [OF this n] have b: "branches_ok (Branch r iid t lc rc)" .
    from s2 i have i2: "i < length (knapsacks m2)"
      and e: "extends (rootNode (knapsacks m1 ! i)) (rootNode (knapsacks m2 ! i))"
      by (simp_all add: manager_step_def knapsack_step_def)
    from extends_node_at [OF e n] obtain x' where
      n2: "node_at p (rootNode (knapsacks m2 ! i)) = Some x'"
      and e2: "extends (Branch r iid t lc rc) x'" by blast
    from e2 obtain iid' t' lc' rc' where
      x': "x' = Branch r iid' t' lc' rc'" and el: "extends lc lc'" and er: "extends rc rc'"
      by (cases x') auto
    from ok2 i2 have "branches_ok (rootNode (knapsacks m2 ! i))" by (simp add: manager_ok_def)
    from branches_ok_node_at [OF this n2] x' have "iid' = None" by simp
    with b i2 n2 x' extends_rectangle [OF el] extends_rectangle [OF er]
    show "iid = None
                \<and> pixels (rectangle lc) \<union> pixels (rectangle rc) = pixels r
                \<and> pixels (rectangle lc) \<inter> pixels (rectangle rc) = {}
                \<and> i < length (knapsacks m2)
                \<and> (\<exists>t' lc' rc'.
                      node_at p (rootNode (knapsacks m2 ! i)) = Some (Branch r None t' lc' rc')
                    \<and> rectangle lc' = rectangle lc \<and> rectangle rc' = rectangle rc)"
      by simp
  qed
  with r1 r2 show ?thesis by blast
qed

theorem branch_nodes_partition_and_stay_witness:
  "list_all positive_sizes ([Allocate (Num 10) (Num 10)]
        @ [Release (Some (0, [LeftChild, LeftChild])), Allocate (Num 5) (Num 5)])
   \<and> run [Allocate (Num 10) (Num 10)] (new_TextureManager (Num 1024)) = Some one_sprite
   \<and> node_at [LeftChild] (rootNode (knapsacks one_sprite ! 0)) =
       Some (Branch \<lparr>rleft = 0, rtop = 0, rright = 1024, rbottom = 10\<rparr> None None
          (Leaf \<lparr>rleft = 0, rtop = 0, rright = 10, rbottom = 10\<rparr> (Some 0) None)
          (Leaf \<lparr>rleft = 10, rtop = 0, rright = 1024, rbottom = 10\<rparr> None None))
   \<and> (\<exists>m2 t' lc' rc'.
         run [Release (Some (0, [LeftChild, LeftChild])), Allocate (Num 5) (Num 5)] one_sprite = Some m2
       \<and> node_at [LeftChild] (rootNode (knapsacks m2 ! 0)) =
           Some (Branch \<lparr>rleft = 0, rtop = 0, rright = 1024, rbottom = 10\<rparr> None t' lc' rc')
       \<and> rectangle lc' = \<lparr>rleft = 0, rtop = 0, rright = 10, rbottom = 10\<rparr>
       \<and> rectangle rc' = \<lparr>rleft = 10, rtop = 0, rright = 1024, rbottom = 10\<rparr>)"
proof -
  have h: "\<forall>c \<in> set ([Allocate (Num 10) (Num 10)]
        @ [Release (Some (0, [LeftChild, LeftChild])), Allocate (Num 5) (Num 5)]). positive_sizes c"
    by simp
  have r: "run [Allocate (Num 10) (Num 10)] (new_TextureManager (Num 1024)) = Some one_sprite"
    by (simp add: eval_manager eval_allocate one_sprite_def tree_one_sprite_def)
  have n: "node_at [LeftChild] (rootNode (knapsacks one_sprite ! 0)) =
       Some (Branch \<lparr>rleft = 0, rtop = 0, rright = 1024, rbottom = 10\<rparr> None None
          (Leaf \<lparr>rleft = 0, rtop = 0, rright = 10, rbottom = 10\<rparr> (Some 0) None)
          (Leaf \<lparr>rleft = 10, rtop = 0, rright = 1024, rbottom = 10\<rparr> None None))"
    by (simp add: one_sprite_def tree_one_sprite_def)
  have l: "0 < length (knapsacks one_sprite)" by (simp add: one_sprite_def)
  from branch_nodes_partition_and_stay [OF h, of "Num 1024"] r l n h show ?thesis
    by fastforce
qed

end
